theory Spec2Isabelle
  imports Main "HOL-Library.Word" "HOL-Library.AList" "HOL-Library.Sublist"
begin

section \<open>The request-execution core of bcc-go (manager.go, errors.go)\<close>

text \<open>
  The model follows \<^verbatim>\<open>src/bcc/manager.go\<close> function by function.  Everything the Go code
  obtains from outside the repository (the HTTP server, the clock, the working directory,
  the regular-expression and YAML libraries) is read from an environment value \<open>env\<close> and
  a mutable \<open>world\<close>; a function that the Go code runs for its effects takes the world and
  returns the new one.  A Go panic is the outcome \<open>Panics\<close>.  The calls of \<^verbatim>\<open>m.log\<close> write
  to the logger and decide nothing; they are left out.
\<close>

subsection \<open>Outcomes and errors\<close>

datatype 'a outcome = Returns 'a | Panics

datatype ctx_err = Canceled | DeadlineExceeded

datatype json = JNull | JBool bool | JNum int | JStr string
  | JArr "json list" | JObj "(string \<times> json) list"

text \<open>
  A body is the bytes read from the response together with what a JSON parser makes of
  them: \<open>parsed = None\<close> for bytes that are not one JSON document (the empty body included).
\<close>

record body =
  raw :: string
  parsed :: "json option"

datatype json_err = SyntaxError | UnmarshalTypeError | InvalidUnmarshalError

text \<open>
  The texts of the Go messages that embed only strings are kept as they are; a message
  that embeds a rendered number or value keeps its parts instead of the rendering.
\<close>

datatype wrap_msg =
    HTTP_request_failure_on string
  | HTTP_Read_error_on_response_for string
  | JSON_decode_failed_on string string
  | JSON_items_decode_failed_on string "64 word"
  | Invalid_request string string
  | Error_while_creating_config_file
  | Yaml_decode_failed_on string string
  | Cannot_find_work_directory
  | Yaml_save_failed

datatype error =
    New string
  | Wrapf error wrap_msg
  | Transport string
  | Ctx ctx_err
  | Json json_err
  | Marshal_error
  | Request_error
  | Business json "json list option"
  | Target_must_be_slice
  | ApiError string int string "string list option"
  | Yaml_error
  | Os_error

subsection \<open>Arguments (the second file of manager.go)\<close>

text \<open>
  \<^verbatim>\<open>type Arguments map[string]string\<close>.  A Go map is \<open>None\<close> when nil and otherwise an
  association list with distinct keys; a \<^verbatim>\<open>range\<close> loop visits the entries of the list in
  some order, here the order of the list.  Writing to a nil map panics.
\<close>

type_synonym entries = "(string \<times> string) list"
type_synonym Arguments = "entries option"

definition Defaults :: Arguments where
  "Defaults = Some []"

definition range_of :: "Arguments \<Rightarrow> entries" where
  "range_of a = (case a of None \<Rightarrow> [] | Some kvs \<Rightarrow> kvs)"

definition ToURLValues :: "Arguments \<Rightarrow> entries" where
  "ToURLValues args = foldl (\<lambda>v (key, val). AList.update key val v) [] (range_of args)"

definition assign :: "string \<Rightarrow> string \<Rightarrow> Arguments outcome \<Rightarrow> Arguments outcome" where
  "assign key val st =
     (case st of Panics \<Rightarrow> Panics
      | Returns None \<Rightarrow> Panics
      | Returns (Some kvs) \<Rightarrow> Returns (Some (AList.update key val kvs)))"

definition merge :: "Arguments \<Rightarrow> Arguments list \<Rightarrow> Arguments outcome" where
  "merge args extraArgs =
     foldl (\<lambda>st extraArg. foldl (\<lambda>st (key, val). assign key val st) st (range_of extraArg))
       (Returns args) extraArgs"

subsection \<open>Manager and WithContext\<close>

text \<open>
  A context is the instant (in nanoseconds of the model clock) at which its Done channel
  closes, if ever, and the error it then reports.  \<open>ctx = None\<close> in a Manager is Go's nil.
\<close>

record Context =
  done_at :: "nat option"
  err_of :: ctx_err

definition Background :: Context where
  "Background = \<lparr>done_at = None, err_of = Canceled\<rparr>"

record Manager =
  Client :: nat
  ClientID :: string
  Logger :: "nat option"
  BaseURL :: string
  Token :: string
  UserAgent :: string
  ctx :: "Context option"

text \<open>
  \<^verbatim>\<open>WithContext\<close> works on pointers: the heap is the list of the Managers allocated so far, a
  pointer is \<open>None\<close> (nil) or the index of one of them, and allocation appends.
\<close>

type_synonym heap = "Manager list"

definition WithContext :: "heap \<Rightarrow> nat option \<Rightarrow> Context option \<Rightarrow> (nat option \<times> heap) outcome" where
  "WithContext h m c =
     (case m of None \<Rightarrow> Panics
      | Some a \<Rightarrow>
          if a < length h
          then (let newManager = h ! a; newManager = newManager\<lparr>ctx := c\<rparr>
                in Returns (Some (length h), h @ [newManager]))
          else Panics)"

subsection \<open>The outside world\<close>

record request =
  Method :: string
  URL :: string
  Query :: entries
  Header :: entries
  Body :: string
  rctx :: Context

record response =
  StatusCode :: int
  X_Esu_Tasks :: string
  payload :: body
  read_err :: "error option"

datatype reply = Failure error | Response response

text \<open>
  \<open>server e n req\<close> is what the \<open>n\<close>-th exchange of a run meets when it sends \<open>req\<close>: the
  time the exchange takes and its result.  The other fields are the library calls whose
  results the code only passes on: \<^verbatim>\<open>url.JoinPath\<close> (\<open>None\<close> when it fails),
  \<^verbatim>\<open>http.NewRequest\<close> (does it accept the method, the URL and the query), \<^verbatim>\<open>yaml.Unmarshal\<close>,
  \<^verbatim>\<open>os.Getwd\<close>, \<^verbatim>\<open>regexp.MustCompile\<close> with \<^verbatim>\<open>FindStringSubmatch\<close> (\<open>None\<close> when the
  pattern does not compile), \<^verbatim>\<open>os.WriteFile\<close>, and the largest capacity
  \<^verbatim>\<open>reflect.MakeSlice\<close> accepts for the element type.
\<close>

record env =
  server :: "nat \<Rightarrow> request \<Rightarrow> nat \<times> reply"
  JoinPath :: "string \<Rightarrow> string \<Rightarrow> string option"
  NewRequest_ok :: "string \<Rightarrow> string \<Rightarrow> entries \<Rightarrow> bool"
  yaml_ok :: "string \<Rightarrow> bool"
  Getwd :: "string option"
  FindStringSubmatch :: "string \<Rightarrow> string \<Rightarrow> string list option"
  WriteFile_ok :: "string \<Rightarrow> bool"
  max_cap :: int

text \<open>
  The world: the monotonic clock in nanoseconds, the number of exchanges sent, the
  sleeps that ran to their end, and the files written.
\<close>

record world =
  clock :: nat
  served :: nat
  slept :: nat
  files :: "(string \<times> string) list"

definition Millisecond :: nat where "Millisecond = 1000000"
definition Second :: nat where "Second = 1000000000"
definition RetryTime :: nat where "RetryTime = 500"
definition LockTimeout :: nat where "LockTimeout = 1200"
definition TaskTimeout :: nat where "TaskTimeout = 600"
definition KubeCtlConfigURL :: string where
  "KubeCtlConfigURL = ''/v1/kubernetes/([^/]+)/config''"

text \<open>
  \<^verbatim>\<open>http.Client.Do\<close>: a request whose context is already done is not sent; one whose
  context ends before the answer arrives fails at that instant; otherwise the answer of
  the server arrives after its latency.
\<close>

definition Client_Do :: "env \<Rightarrow> request \<Rightarrow> world \<Rightarrow> reply \<times> world" where
  "Client_Do e req w =
     (let (latency, r) = server e (served w) req;
          w' = w\<lparr>served := served w + 1\<rparr>
      in case done_at (rctx req) of
           None \<Rightarrow> (r, w'\<lparr>clock := clock w + latency\<rparr>)
         | Some t \<Rightarrow>
             if t \<le> clock w then (Failure (Ctx (err_of (rctx req))), w)
             else if t < clock w + latency
             then (Failure (Ctx (err_of (rctx req))), w'\<lparr>clock := t\<rparr>)
             else (r, w'\<lparr>clock := clock w + latency\<rparr>))"

text \<open>
  \<^verbatim>\<open>SleepWithContext\<close> selects between the timer and the Done channel.  A context done
  before the timer fires wins; the clock then stands at the later of now and the instant
  of cancellation.  (When both are ready at the same instant Go chooses either; the model
  lets the timer win, which only happens for a cancellation exactly at the end of the sleep.)
\<close>

definition SleepWithContext :: "Context \<Rightarrow> nat \<Rightarrow> world \<Rightarrow> error option \<times> world" where
  "SleepWithContext c dur w =
     (case done_at c of
        None \<Rightarrow> (None, w\<lparr>clock := clock w + dur, slept := slept w + 1\<rparr>)
      | Some t \<Rightarrow>
          if t < clock w + dur then (Some (Ctx (err_of c)), w\<lparr>clock := max (clock w) t\<rparr>)
          else (None, w\<lparr>clock := clock w + dur, slept := slept w + 1\<rparr>))"

definition sleep :: "Manager \<Rightarrow> nat \<Rightarrow> world \<Rightarrow> error option \<times> world" where
  "sleep m dur w =
     (case ctx m of
        Some c \<Rightarrow> SleepWithContext c dur w
      | None \<Rightarrow> (None, w\<lparr>clock := clock w + dur, slept := slept w + 1\<rparr>))"

subsection \<open>Decoding with encoding/json\<close>

text \<open>
  encoding/json matches the key of a member with the name of a struct field up to simple
  case folding.  The names here are ASCII, so a key matches when, read as UTF-8, it is
  the name up to the case of the ASCII letters, with U+017F (bytes C5 BF) standing for
  \<^verbatim>\<open>s\<close> and U+212A (bytes E2 84 AA) for \<^verbatim>\<open>k\<close>; no other character folds to an ASCII letter.
  \<open>fold_key\<close> maps a key to its folded form, and \<open>field tag kvs\<close> is the value that decoding
  an object leaves in the field named \<open>tag\<close>: that of the last member whose key matches.
\<close>

definition to_lower :: "char \<Rightarrow> char" where
  "to_lower c =
     (case map_of (zip ''ABCDEFGHIJKLMNOPQRSTUVWXYZ'' ''abcdefghijklmnopqrstuvwxyz'') c of
        Some l \<Rightarrow> l
      | None \<Rightarrow> c)"

fun fold_key :: "string \<Rightarrow> string" where
  "fold_key (a # b # c # s) =
     (if [a, b, c] = [CHR 0xE2, CHR 0x84, CHR 0xAA] then CHR ''k'' # fold_key s
      else if [a, b] = [CHR 0xC5, CHR 0xBF] then CHR ''s'' # fold_key (c # s)
      else to_lower a # fold_key (b # c # s))"
| "fold_key [a, b] =
     (if [a, b] = [CHR 0xC5, CHR 0xBF] then [CHR ''s''] else [to_lower a, to_lower b])"
| "fold_key [a] = [to_lower a]"
| "fold_key [] = []"

definition field :: "string \<Rightarrow> (string \<times> json) list \<Rightarrow> json option" where
  "field tag kvs = map_of (rev (map (\<lambda>(k, v). (fold_key k, v)) kvs)) (fold_key tag)"

record ObjectLocked =
  Details :: "json list option"
  ErrorAlias :: "json list option"
  NonFieldErrors :: "json list option"

definition zero_ObjectLocked :: ObjectLocked where
  "zero_ObjectLocked = \<lparr>Details = None, ErrorAlias = None, NonFieldErrors = None\<rparr>"

text \<open>
  A field of type \<^verbatim>\<open>[]interface{}\<close>: an absent member leaves it as it was, \<^verbatim>\<open>null\<close> sets it
  to nil, an array replaces it (an empty array by an empty, non-nil slice), anything else
  is a type error.
\<close>

definition slice_field :: "json option \<Rightarrow> json list option \<Rightarrow> bool \<times> json list option" where
  "slice_field v old =
     (case v of None \<Rightarrow> (True, old)
      | Some JNull \<Rightarrow> (True, None)
      | Some (JArr xs) \<Rightarrow> (True, Some xs)
      | Some _ \<Rightarrow> (False, old))"

definition Unmarshal_ObjectLocked :: "body \<Rightarrow> ObjectLocked \<Rightarrow> error option \<times> ObjectLocked" where
  "Unmarshal_ObjectLocked b lo =
     (case parsed b of
        None \<Rightarrow> (Some (Json SyntaxError), lo)
      | Some JNull \<Rightarrow> (None, lo)
      | Some (JObj kvs) \<Rightarrow>
          (let (ok1, d) = slice_field (field ''details'' kvs) (Details lo);
               (ok2, a) = slice_field (field ''error_alias'' kvs) (ErrorAlias lo);
               (ok3, n) = slice_field (field ''non_field_errors'' kvs) (NonFieldErrors lo);
               lo' = \<lparr>Details = d, ErrorAlias = a, NonFieldErrors = n\<rparr>
           in (if ok1 \<and> ok2 \<and> ok3 then None else Some (Json UnmarshalTypeError), lo'))
      | Some _ \<Rightarrow> (Some (Json UnmarshalTypeError), lo))"

text \<open>
  \<^verbatim>\<open>fmt.Sprintf("%v", x) != "object_locked"\<close> for a decoded JSON value \<open>x\<close>: a string renders
  as itself, and no other value renders as these letters (nil is \<^verbatim>\<open><nil>\<close>, a number starts
  with a digit or a sign, a list with a bracket, an object with \<^verbatim>\<open>map[\<close>, a boolean is
  \<^verbatim>\<open>true\<close> or \<^verbatim>\<open>false\<close>).
\<close>

definition not_object_locked :: "json \<Rightarrow> bool" where
  "not_object_locked x = (x \<noteq> JStr ''object_locked'')"

text \<open>
  \<^verbatim>\<open>errors.go\<close>: the alias list is decoded into \<^verbatim>\<open>[]string\<close>, failures ignored: an element
  that is not a string is left empty.
\<close>

definition alias_strings :: "body \<Rightarrow> string list option" where
  "alias_strings b =
     (case parsed b of
        Some (JObj kvs) \<Rightarrow>
          (case field ''error_alias'' kvs of
             Some (JArr xs) \<Rightarrow> Some (map (\<lambda>x. case x of JStr s \<Rightarrow> s | _ \<Rightarrow> []) xs)
           | _ \<Rightarrow> None)
      | _ \<Rightarrow> None)"

definition NewApiError :: "string \<Rightarrow> response \<Rightarrow> error" where
  "NewApiError url resp =
     ApiError url (StatusCode resp) (raw (payload resp)) (alias_strings (payload resp))"

subsection \<open>The Credential File Exporter\<close>

fun Contains :: "string \<Rightarrow> string \<Rightarrow> bool" where
  "Contains [] substr = (substr = [])"
| "Contains (c # s) substr = (prefix substr (c # s) \<or> Contains s substr)"

definition extractIDFromURL :: "env \<Rightarrow> string \<Rightarrow> string \<Rightarrow> (string \<times> error option) outcome" where
  "extractIDFromURL e url reg =
     (case FindStringSubmatch e reg url of
        None \<Rightarrow> Panics
      | Some matches \<Rightarrow>
          if length matches < 2 then Returns ([], Some (New ''No ID found in the URL''))
          else Returns (matches ! 1, None))"

text \<open>
  \<^verbatim>\<open>filepath.Join\<close> of the working directory (an absolute, clean path) and a file name
  without separators.
\<close>

definition filepath_Join :: "string \<Rightarrow> string \<Rightarrow> string" where
  "filepath_Join dir name = (if dir = ''/'' then dir @ name else dir @ ''/'' @ name)"

definition CreateKubeCtlConfigFile ::
  "env \<Rightarrow> string \<Rightarrow> string \<Rightarrow> string \<Rightarrow> world \<Rightarrow> (error option \<times> world) outcome" where
  "CreateKubeCtlConfigFile e b url reg_url w =
     (if \<not> yaml_ok e b then Returns (Some (Wrapf Yaml_error (Yaml_decode_failed_on url b)), w)
      else case Getwd e of
        None \<Rightarrow> Returns (Some (Wrapf Os_error Cannot_find_work_directory), w)
      | Some dir \<Rightarrow>
          (case extractIDFromURL e url reg_url of
             Panics \<Rightarrow> Panics
           | Returns (k8s_id, _) \<Rightarrow>
               (let name = ''kubectl-'' @ k8s_id @ ''.yaml'';
                    filePath = filepath_Join dir name
                in if WriteFile_ok e filePath
                   then Returns (None, w\<lparr>files := (filePath, b) # files w\<rparr>)
                   else Returns (Some (Wrapf Os_error Yaml_save_failed), w))))"

subsection \<open>The Lock-Retry Executor: do\<close>

text \<open>
  What the branch \<^verbatim>\<open>if locked_object.ErrorAlias != nil\<close> does: indexing element 0 of an
  empty or nil slice panics; a first alias other than \<^verbatim>\<open>object_locked\<close> is a business error
  made of the first non-field error and the details; otherwise the loop goes on to sleep.
\<close>

datatype verdict = Index_out_of_range | Conflict error | Locked

definition alias_branch :: "ObjectLocked \<Rightarrow> verdict" where
  "alias_branch locked_object =
     (case ErrorAlias locked_object of
        None \<Rightarrow> Locked
      | Some [] \<Rightarrow> Index_out_of_range
      | Some (error_alias # _) \<Rightarrow>
          (case NonFieldErrors locked_object of
             None \<Rightarrow> Index_out_of_range
           | Some [] \<Rightarrow> Index_out_of_range
           | Some (error_data # _) \<Rightarrow>
               if not_object_locked error_alias
               then Conflict (Business error_data (Details locked_object))
               else Locked))"

datatype loop_exit = Failed error world | Panicked | Answered response world

datatype step = Exit loop_exit | Again ObjectLocked world

text \<open>One turn of the \<^verbatim>\<open>for\<close> loop of \<^verbatim>\<open>do\<close> (lines 335 to 381).\<close>

definition do_attempt ::
  "env \<Rightarrow> Manager \<Rightarrow> request \<Rightarrow> string \<Rightarrow> string \<Rightarrow> nat \<Rightarrow> ObjectLocked \<Rightarrow> world \<Rightarrow> step" where
  "do_attempt e m req url requestBody start locked_object w =
     (case Client_Do e (req\<lparr>Body := requestBody\<rparr>) w of
        (Failure err, w1) \<Rightarrow> Exit (Failed (Wrapf err (HTTP_request_failure_on url)) w1)
      | (Response resp_, w1) \<Rightarrow>
          if StatusCode resp_ = 409 then
            (case Unmarshal_ObjectLocked (payload resp_) locked_object of
               (Some err, _) \<Rightarrow> Exit (Failed (Wrapf err (HTTP_Read_error_on_response_for url)) w1)
             | (None, lo) \<Rightarrow>
                 (case alias_branch lo of
                    Index_out_of_range \<Rightarrow> Exit Panicked
                  | Conflict err \<Rightarrow> Exit (Failed err w1)
                  | Locked \<Rightarrow>
                      (case sleep m (RetryTime * Millisecond) w1 of
                         (Some err, w2) \<Rightarrow> Exit (Failed err w2)
                       | (None, w2) \<Rightarrow>
                           if clock w2 - start > LockTimeout * Second
                           then Exit (Failed (New ''Lock timeout'') w2)
                           else Again lo w2)))
          else Exit (Answered resp_ w1))"

function do_loop ::
  "env \<Rightarrow> Manager \<Rightarrow> request \<Rightarrow> string \<Rightarrow> string \<Rightarrow> nat \<Rightarrow> ObjectLocked \<Rightarrow> world \<Rightarrow> loop_exit" where
  "do_loop e m req url requestBody start locked_object w =
     (case do_attempt e m req url requestBody start locked_object w of
        Exit x \<Rightarrow> x
      | Again lo w' \<Rightarrow> do_loop e m req url requestBody start lo w')"
  by pat_completeness auto
termination
proof (relation "measure (\<lambda>(e, m, req, url, requestBody, start, locked_object, w).
                   start + LockTimeout * Second + 1 - clock w)")
  show "wf (measure (\<lambda>(e, m, req, url, requestBody, start, locked_object, w).
                   start + LockTimeout * Second + 1 - clock w))"
    by simp
next
  fix e m req url requestBody start locked_object w lo w'
  assume a: "do_attempt e m req url requestBody start locked_object w = Again lo w'"
  obtain r w1 where c: "Client_Do e (req\<lparr>Body := requestBody\<rparr>) w = (r, w1)"
    by (cases "Client_Do e (req\<lparr>Body := requestBody\<rparr>) w")
  have c1: "clock w \<le> clock w1"
    using c by (auto simp: Client_Do_def Let_def split: prod.splits option.splits if_splits)
  have s: "sleep m (RetryTime * Millisecond) w1 = (None, w')"
    and t: "\<not> clock w' - start > LockTimeout * Second"
    using a c
    by (auto simp: do_attempt_def split: reply.splits if_splits prod.splits option.splits
        verdict.splits)
  have "clock w' = clock w1 + RetryTime * Millisecond"
    using s by (auto simp: sleep_def SleepWithContext_def split: option.splits if_splits)
  then have "clock w < clock w'"
    using c1 by (simp add: RetryTime_def Millisecond_def)
  then show "((e, m, req, url, requestBody, start, lo, w'),
              (e, m, req, url, requestBody, start, locked_object, w))
             \<in> measure (\<lambda>(e, m, req, url, requestBody, start, locked_object, w).
                   start + LockTimeout * Second + 1 - clock w)"
    using t by simp
qed

text \<open>
  A destination is given by what \<^verbatim>\<open>json.Unmarshal(b, target)\<close> does to the value it holds:
  the error, if any, and the value afterwards.  \<open>None\<close> is the nil interface.
\<close>

type_synonym 'v unmarshal = "body \<Rightarrow> 'v \<Rightarrow> error option \<times> 'v"

definition do ::
  "env \<Rightarrow> Manager \<Rightarrow> request \<Rightarrow> string \<Rightarrow> 'v unmarshal option \<Rightarrow> 'v \<Rightarrow> string \<Rightarrow> world
   \<Rightarrow> ((string \<times> error option) \<times> 'v \<times> world) outcome" where
  "do e m req url target v requestBody w =
     (let req = req\<lparr>Header := AList.update ''Accept-Language'' ''ru-ru'' (Header req)\<rparr>
      in case do_loop e m req url requestBody (clock w) zero_ObjectLocked w of
           Panicked \<Rightarrow> Panics
         | Failed err w' \<Rightarrow> Returns (([], Some err), v, w')
         | Answered resp w' \<Rightarrow>
             if StatusCode resp < 200 \<or> StatusCode resp > 299
             then Returns (([], Some (NewApiError url resp)), v, w')
             else (case read_err resp of
                Some err \<Rightarrow>
                  Returns (([], Some (Wrapf err (HTTP_Read_error_on_response_for url))), v, w')
              | None \<Rightarrow>
                  (let b = payload resp; taskIds = X_Esu_Tasks resp
                   in if raw b = [] then Returns ((taskIds, None), v, w')
                      else case target of
                        None \<Rightarrow> Returns ((taskIds, None), v, w')
                      | Some unmarshal \<Rightarrow>
                          if Contains url ''config''
                          then (case CreateKubeCtlConfigFile e (raw b) url
                                       (BaseURL m @ KubeCtlConfigURL) w' of
                                  Panics \<Rightarrow> Panics
                                | Returns (Some err, w2) \<Rightarrow>
                                    Returns (([], Some (Wrapf err Error_while_creating_config_file)),
                                             v, w2)
                                | Returns (None, w2) \<Rightarrow> Returns ((taskIds, None), v, w2))
                          else (case unmarshal b v of
                                  (Some err, v') \<Rightarrow>
                                    Returns (([], Some (Wrapf err (JSON_decode_failed_on url (raw b)))),
                                             v', w')
                                | (None, v') \<Rightarrow> Returns ((taskIds, None), v', w')))))"

subsection \<open>Get\<close>

definition request_URL :: "env \<Rightarrow> string \<Rightarrow> string \<Rightarrow> string" where
  "request_URL e base path = (case JoinPath e base path of Some u \<Rightarrow> u | None \<Rightarrow> [])"

definition NewRequest :: "string \<Rightarrow> string \<Rightarrow> entries \<Rightarrow> string \<Rightarrow> request" where
  "NewRequest method url query b =
     \<lparr>Method = method, URL = url, Query = query, Header = [], Body = b, rctx = Background\<rparr>"

definition Header_Set :: "string \<Rightarrow> string \<Rightarrow> request \<Rightarrow> request" where
  "Header_Set key val req = req\<lparr>Header := AList.update key val (Header req)\<rparr>"

definition Get ::
  "env \<Rightarrow> Manager \<Rightarrow> string \<Rightarrow> Arguments \<Rightarrow> 'v unmarshal option \<Rightarrow> 'v \<Rightarrow> world
   \<Rightarrow> (error option \<times> 'v \<times> world) outcome" where
  "Get e m path args target v w =
     (let params = ToURLValues args;
          request_url = request_URL e (BaseURL m) path
      in if \<not> NewRequest_ok e ''GET'' request_url params
         then Returns (Some (Wrapf Request_error (Invalid_request ''GET'' request_url)), v, w)
         else (let req = NewRequest ''GET'' request_url params [];
                   req = Header_Set ''Authorization'' (''Bearer '' @ Token m) req
               in case ctx m of
                    None \<Rightarrow> Panics
                  | Some c \<Rightarrow>
                      (case do e m (req\<lparr>rctx := c\<rparr>) request_url target v [] w of
                         Panics \<Rightarrow> Panics
                       | Returns ((_, err), v', w') \<Rightarrow> Returns (err, v', w'))))"

subsection \<open>The Task Waiter\<close>

record Task =
  Status :: string
  Name :: string

definition zero_Task :: Task where
  "zero_Task = \<lparr>Status = [], Name = []\<rparr>"

text \<open>
  \<^verbatim>\<open>WaitTask\<close> hands \<^verbatim>\<open>task\<close> itself to \<^verbatim>\<open>Get\<close>, not its address.  \<^verbatim>\<open>json.Unmarshal\<close> refuses
  a destination that is not a pointer (after checking the syntax of the input), and the
  callee's copy is lost on return.
\<close>

definition by_value :: "'v unmarshal" where
  "by_value b v =
     (Some (Json (if parsed b = None then SyntaxError else InvalidUnmarshalError)), v)"

datatype 'r turn = Stop 'r | Next world

text \<open>One turn of the \<^verbatim>\<open>for\<close> loop of \<^verbatim>\<open>WaitTask\<close> (lines 285 to 304).\<close>

definition WaitTask_attempt ::
  "env \<Rightarrow> Manager \<Rightarrow> string \<Rightarrow> nat \<Rightarrow> Task \<Rightarrow> world \<Rightarrow> (error option \<times> world) outcome turn" where
  "WaitTask_attempt e m path start task w =
     (case Get e m path (Some []) (Some by_value) task w of
        Panics \<Rightarrow> Stop Panics
      | Returns (Some err, _, w1) \<Rightarrow> Stop (Returns (None, w1))
      | Returns (None, _, w1) \<Rightarrow>
          if Status task = ''error''
          then Stop (Returns (Some (New (''Task in error status, step: '' @ Name task)), w1))
          else (case sleep m (RetryTime * Millisecond) w1 of
                  (Some err, w2) \<Rightarrow> Stop (Returns (Some err, w2))
                | (None, w2) \<Rightarrow>
                    if clock w2 - start > TaskTimeout * Second
                    then Stop (Returns (Some (New ''Task timeout''), w2))
                    else Next w2))"

function WaitTask_loop ::
  "env \<Rightarrow> Manager \<Rightarrow> string \<Rightarrow> nat \<Rightarrow> Task \<Rightarrow> world \<Rightarrow> (error option \<times> world) outcome" where
  "WaitTask_loop e m path start task w =
     (case WaitTask_attempt e m path start task w of
        Stop r \<Rightarrow> r
      | Next w' \<Rightarrow> WaitTask_loop e m path start task w')"
  by pat_completeness auto
termination
proof (relation "measure (\<lambda>(e, m, path, start, task, w).
                   start + TaskTimeout * Second + 1 - clock w)")
  show "wf (measure (\<lambda>(e, m, path, start, task, w).
                   start + TaskTimeout * Second + 1 - clock w))"
    by simp
next
  fix e :: env and m :: Manager and path :: string and start :: nat and task :: Task
    and w w' :: world
  assume a: "WaitTask_attempt e m path start task w = Next w'"
  have attempt_mono: "clock w0 \<le> clock w1"
    if "do_attempt e0 m0 req url rb st lo w0 = Again lo1 w1 \<or>
        do_attempt e0 m0 req url rb st lo w0 = Exit (Failed err w1) \<or>
        do_attempt e0 m0 req url rb st lo w0 = Exit (Answered resp w1)"
    for e0 m0 req url rb st lo w0 lo1 w1 err resp
    using that
    by (auto simp: do_attempt_def Client_Do_def sleep_def SleepWithContext_def Let_def
        split: reply.splits if_splits prod.splits option.splits verdict.splits)
  have loop_mono: "(do_loop e0 m0 req url rb st lo w0 = Failed err w1 \<longrightarrow> clock w0 \<le> clock w1) \<and>
        (do_loop e0 m0 req url rb st lo w0 = Answered resp w1 \<longrightarrow> clock w0 \<le> clock w1)"
    for e0 m0 req url rb st lo w0 w1 err resp
  proof (induction e0 m0 req url rb st lo w0 rule: do_loop.induct)
    case (1 e0 m0 req url rb st lo w0)
    show ?case
    proof (cases "do_attempt e0 m0 req url rb st lo w0")
      case (Exit x)
      then show ?thesis
        using attempt_mono [of e0 m0 req url rb st lo w0 _ w1 err resp]
        by (auto simp: do_loop.simps [of e0 m0 req url rb st lo w0])
    next
      case (Again lo2 w2)
      have "clock w0 \<le> clock w2"
        using attempt_mono [of e0 m0 req url rb st lo w0 lo2 w2] Again by simp
      then show ?thesis
        using "1.IH" [OF Again] Again
        by (auto simp: do_loop.simps [of e0 m0 req url rb st lo w0])
    qed
  qed
  have do_mono: "clock w0 \<le> clock w1"
    if "do e0 m0 req url tg v rb w0 = Returns (x, v1, w1)"
    for e0 m0 req url and tg :: "Task unmarshal option" and v rb w0 x v1 w1
    using that loop_mono [of e0 m0 _ url rb "clock w0" zero_ObjectLocked w0]
    by (auto simp: do_def Let_def CreateKubeCtlConfigFile_def
        split: loop_exit.splits if_splits option.splits outcome.splits prod.splits)
  obtain v1 w1 where g: "Get e m path (Some []) (Some by_value) task w = Returns (None, v1, w1)"
    and s: "sleep m (RetryTime * Millisecond) w1 = (None, w')"
    and t: "\<not> clock w' - start > TaskTimeout * Second"
    using a
    by (auto simp: WaitTask_attempt_def
        split: outcome.splits prod.splits option.splits if_splits)
  have "clock w \<le> clock w1"
    using g do_mono
    by (auto simp: Get_def Let_def split: if_splits option.splits outcome.splits prod.splits)
  moreover have "clock w' = clock w1 + RetryTime * Millisecond"
    using s by (auto simp: sleep_def SleepWithContext_def split: option.splits if_splits)
  ultimately have "clock w < clock w'"
    by (simp add: RetryTime_def Millisecond_def)
  then show "((e, m, path, start, task, w'), (e, m, path, start, task, w))
             \<in> measure (\<lambda>(e, m, path, start, task, w).
                   start + TaskTimeout * Second + 1 - clock w)"
    using t by simp
qed

definition WaitTask :: "env \<Rightarrow> Manager \<Rightarrow> string \<Rightarrow> world \<Rightarrow> (error option \<times> world) outcome" where
  "WaitTask e m taskId w =
     (let path = request_URL e ''v1/job'' taskId;
          start = clock w;
          task = zero_Task
      in WaitTask_loop e m path start task w)"

text \<open>
  \<^verbatim>\<open>strings.Split(taskIds, ",")\<close> and \<^verbatim>\<open>strings.TrimSpace\<close>.  The latter removes the
  leading and the trailing characters that \<^verbatim>\<open>unicode.IsSpace\<close> accepts; \<open>white_space\<close> lists
  their UTF-8 encodings (tab to carriage return, space, U+0085, U+00A0, U+1680, U+2000 to
  U+200A, U+2028, U+2029, U+202F, U+205F, U+3000).  \<open>strip ps s\<close> removes from the front of
  \<open>s\<close> every leading sequence that is in \<open>ps\<close> (each at most three bytes long).
\<close>

fun Split :: "string \<Rightarrow> char \<Rightarrow> string list" where
  "Split [] sep = [[]]"
| "Split (c # s) sep =
     (if c = sep then [] # Split s sep
      else (case Split s sep of [] \<Rightarrow> [[c]] | x # xs \<Rightarrow> (c # x) # xs))"

definition white_space :: "string list" where
  "white_space =
     [[CHR 0x09], [CHR 0x0A], [CHR 0x0B], [CHR 0x0C], [CHR 0x0D], [CHR 0x20],
      [CHR 0xC2, CHR 0x85], [CHR 0xC2, CHR 0xA0], [CHR 0xE1, CHR 0x9A, CHR 0x80],
      [CHR 0xE2, CHR 0x80, CHR 0x80], [CHR 0xE2, CHR 0x80, CHR 0x81],
      [CHR 0xE2, CHR 0x80, CHR 0x82], [CHR 0xE2, CHR 0x80, CHR 0x83],
      [CHR 0xE2, CHR 0x80, CHR 0x84], [CHR 0xE2, CHR 0x80, CHR 0x85],
      [CHR 0xE2, CHR 0x80, CHR 0x86], [CHR 0xE2, CHR 0x80, CHR 0x87],
      [CHR 0xE2, CHR 0x80, CHR 0x88], [CHR 0xE2, CHR 0x80, CHR 0x89],
      [CHR 0xE2, CHR 0x80, CHR 0x8A], [CHR 0xE2, CHR 0x80, CHR 0xA8],
      [CHR 0xE2, CHR 0x80, CHR 0xA9], [CHR 0xE2, CHR 0x80, CHR 0xAF],
      [CHR 0xE2, CHR 0x81, CHR 0x9F], [CHR 0xE3, CHR 0x80, CHR 0x80]]"

fun strip :: "string list \<Rightarrow> string \<Rightarrow> string" where
  "strip ps (a # b # c # s) =
     (if [a] \<in> set ps then strip ps (b # c # s)
      else if [a, b] \<in> set ps then strip ps (c # s)
      else if [a, b, c] \<in> set ps then strip ps s
      else a # b # c # s)"
| "strip ps [a, b] =
     (if [a] \<in> set ps then strip ps [b]
      else if [a, b] \<in> set ps then []
      else [a, b])"
| "strip ps [a] = (if [a] \<in> set ps then [] else [a])"
| "strip ps [] = []"

definition TrimSpace :: "string \<Rightarrow> string" where
  "TrimSpace s = rev (strip (map rev white_space) (rev (strip white_space s)))"

fun waitTasks_range ::
  "env \<Rightarrow> Manager \<Rightarrow> string list \<Rightarrow> world \<Rightarrow> (error option \<times> world) outcome" where
  "waitTasks_range e m [] w = Returns (None, w)"
| "waitTasks_range e m (taskId # rest) w =
     (let taskId = TrimSpace taskId
      in if taskId = [] then waitTasks_range e m rest w
         else (case WaitTask e m taskId w of
                 Panics \<Rightarrow> Panics
               | Returns (Some err, w1) \<Rightarrow> Returns (Some err, w1)
               | Returns (None, w1) \<Rightarrow> waitTasks_range e m rest w1))"

definition waitTasks :: "env \<Rightarrow> Manager \<Rightarrow> string \<Rightarrow> world \<Rightarrow> (error option \<times> world) outcome" where
  "waitTasks e m taskIds w = waitTasks_range e m (Split taskIds CHR '','') w"

subsection \<open>Request and Delete\<close>

text \<open>
  \<open>args\<close> is what \<^verbatim>\<open>json.Marshal(args)\<close> returns: the bytes, or \<open>None\<close> when it fails.  In
  both functions the result of \<^verbatim>\<open>m.waitTasks(taskIds)\<close> is not assigned to anything.
\<close>

definition Request ::
  "env \<Rightarrow> Manager \<Rightarrow> string \<Rightarrow> string \<Rightarrow> string option \<Rightarrow> 'v unmarshal option \<Rightarrow> 'v \<Rightarrow> world
   \<Rightarrow> (error option \<times> 'v \<times> world) outcome" where
  "Request e m method path args target v w =
     (case args of
        None \<Rightarrow> Returns (Some Marshal_error, v, w)
      | Some res \<Rightarrow>
          (let request_url = request_URL e (BaseURL m) path
           in if \<not> NewRequest_ok e method request_url []
              then Returns (Some (Wrapf Request_error (Invalid_request method request_url)), v, w)
              else (let req = NewRequest method request_url [] res;
                        req = Header_Set ''Authorization'' (''Bearer '' @ Token m) req;
                        req = Header_Set ''Content-Type'' ''application/json'' req
                    in case ctx m of
                         None \<Rightarrow> Panics
                       | Some c \<Rightarrow>
                           (case do e m (req\<lparr>rctx := c\<rparr>) request_url target v res w of
                              Panics \<Rightarrow> Panics
                            | Returns ((taskIds, err), v', w1) \<Rightarrow>
                                (case waitTasks e m taskIds w1 of
                                   Panics \<Rightarrow> Panics
                                 | Returns (_, w2) \<Rightarrow> Returns (err, v', w2))))))"

definition Delete ::
  "env \<Rightarrow> Manager \<Rightarrow> string \<Rightarrow> Arguments \<Rightarrow> 'v unmarshal option \<Rightarrow> 'v \<Rightarrow> world
   \<Rightarrow> (error option \<times> 'v \<times> world) outcome" where
  "Delete e m path args target v w =
     (let request_url = request_URL e (BaseURL m) path
      in if \<not> NewRequest_ok e ''DELETE'' request_url []
         then Returns (Some (Wrapf Request_error (Invalid_request ''DELETE'' request_url)), v, w)
         else (let req = NewRequest ''DELETE'' request_url [] [];
                   req = Header_Set ''Authorization'' (''Bearer '' @ Token m) req
               in case do e m req request_url target v [] w of
                    Panics \<Rightarrow> Panics
                  | Returns ((taskIds, err), v', w1) \<Rightarrow>
                      (case waitTasks e m taskIds w1 of
                         Panics \<Rightarrow> Panics
                       | Returns (_, w2) \<Rightarrow> Returns (err, v', w2))))"

subsection \<open>The Paginator: GetItems\<close>

text \<open>Go's \<^verbatim>\<open>int\<close> is a signed 64-bit word; \<^verbatim>\<open>min\<close> compares signed values.\<close>

type_synonym go_int = "64 word"

definition min_int :: "go_int \<Rightarrow> go_int \<Rightarrow> go_int" where
  "min_int a b = (if sint a < sint b then a else b)"

record tempStruct =
  Total :: go_int
  Limit :: go_int
  Items :: "json option"

definition zero_tempStruct :: tempStruct where
  "zero_tempStruct = \<lparr>Total = 0, Limit = 0, Items = None\<rparr>"

text \<open>
  A field of type \<^verbatim>\<open>int\<close>: absent or \<^verbatim>\<open>null\<close> leaves it, a number in range sets it,
  anything else is a type error.  \<^verbatim>\<open>Items\<close> is a \<^verbatim>\<open>json.RawMessage\<close>: it keeps the member's
  value whatever it is (\<open>None\<close> stands for no bytes at all).
\<close>

definition int_field :: "json option \<Rightarrow> go_int \<Rightarrow> bool \<times> go_int" where
  "int_field v old =
     (case v of None \<Rightarrow> (True, old)
      | Some JNull \<Rightarrow> (True, old)
      | Some (JNum n) \<Rightarrow>
          if - (2 ^ 63) \<le> n \<and> n < 2 ^ 63 then (True, word_of_int n) else (False, old)
      | Some _ \<Rightarrow> (False, old))"

definition Unmarshal_tempStruct :: "tempStruct unmarshal" where
  "Unmarshal_tempStruct b temp =
     (case parsed b of
        None \<Rightarrow> (Some (Json SyntaxError), temp)
      | Some JNull \<Rightarrow> (None, temp)
      | Some (JObj kvs) \<Rightarrow>
          (let (ok1, total) = int_field (field ''total'' kvs) (Total temp);
               (ok2, limit) = int_field (field ''limit'' kvs) (Limit temp);
               items = (case field ''Items'' kvs of None \<Rightarrow> Items temp | Some x \<Rightarrow> Some x);
               temp' = \<lparr>Total = total, Limit = limit, Items = items\<rparr>
           in (if ok1 \<and> ok2 then None else Some (Json UnmarshalTypeError), temp'))
      | Some _ \<Rightarrow> (Some (Json UnmarshalTypeError), temp))"

text \<open>
  \<^verbatim>\<open>json.Unmarshal(temp.Items, currentItems)\<close> into a fresh slice of the destination's type;
  \<open>elem\<close> decodes one element.
\<close>

definition Unmarshal_items :: "(json \<Rightarrow> 'a option) \<Rightarrow> json option \<Rightarrow> error + 'a list" where
  "Unmarshal_items elem items =
     (case items of
        None \<Rightarrow> Inl (Json SyntaxError)
      | Some JNull \<Rightarrow> Inr []
      | Some (JArr xs) \<Rightarrow>
          if list_all (\<lambda>x. elem x \<noteq> None) xs then Inr (map (\<lambda>x. the (elem x)) xs)
          else Inl (Json UnmarshalTypeError)
      | Some _ \<Rightarrow> Inl (Json UnmarshalTypeError))"

text \<open>\<^verbatim>\<open>fmt.Sprint(page)\<close>.\<close>

fun digits :: "nat \<Rightarrow> string" where
  "digits n = (if n < 10 then [''0123456789'' ! n] else digits (n div 10) @ [''0123456789'' ! (n mod 10)])"

definition Sprint :: "go_int \<Rightarrow> string" where
  "Sprint i = (if sint i < 0 then CHR ''-'' # digits (nat (- sint i)) else digits (nat (sint i)))"

text \<open>
  One run of the \<^verbatim>\<open>for\<close> loop of \<^verbatim>\<open>GetItems\<close> from the given page on (lines 191 to 233).
  \<open>settable\<close> tells whether the destination was passed by pointer; \<open>acc\<close> is what the
  destination holds.  The loop has no bound of its own, so its result is an option.
\<close>

type_synonym 'a fetched = "(error option \<times> 'a list \<times> world) outcome"

partial_function (option) GetItems_loop ::
  "env \<Rightarrow> Manager \<Rightarrow> string \<Rightarrow> (json \<Rightarrow> 'a option) \<Rightarrow> bool \<Rightarrow> entries \<Rightarrow> go_int \<Rightarrow> 'a list \<Rightarrow> world
   \<Rightarrow> 'a fetched option" where
  "GetItems_loop e m path elem settable params page acc w =
     (let params = AList.update ''page'' (Sprint page) params;
          request_url = request_URL e (BaseURL m) path
      in if \<not> NewRequest_ok e ''GET'' request_url params
         then Some (Returns (Some (Wrapf Request_error (Invalid_request ''GET'' request_url)), acc, w))
         else (let req = NewRequest ''GET'' request_url params [];
                   req = Header_Set ''Authorization'' (''Bearer '' @ Token m) req
               in case ctx m of
                    None \<Rightarrow> Some Panics
                  | Some c \<Rightarrow>
                      (case do e m (req\<lparr>rctx := c\<rparr>) request_url (Some Unmarshal_tempStruct)
                              zero_tempStruct [] w of
                         Panics \<Rightarrow> Some Panics
                       | Returns ((_, Some err), _, w1) \<Rightarrow> Some (Returns (None, acc, w1))
                       | Returns ((_, None), temp, w1) \<Rightarrow>
                           (let currentPageSize =
                                  min_int (Total temp - Limit temp * (page - 1)) (Limit temp)
                            in if sint currentPageSize < 0 \<or> max_cap e < sint currentPageSize
                               then Some Panics
                               else (case Unmarshal_items elem (Items temp) of
                                  Inl err \<Rightarrow>
                                    Some (Returns (Some (Wrapf err (JSON_items_decode_failed_on path page)),
                                                   acc, w1))
                                | Inr currentItems \<Rightarrow>
                                    if \<not> settable then Some Panics
                                    else (let acc = acc @ currentItems
                                          in if int (length acc) = sint (Total temp)
                                             then Some (Returns (None, acc, w1))
                                             else GetItems_loop e m path elem settable params
                                                    (page + 1) acc w1))))))"

text \<open>
  The destination as reflection sees it: the nil interface and a nil pointer make
  \<^verbatim>\<open>Kind\<close> or \<^verbatim>\<open>Type\<close> panic, anything that is not a slice or a pointer to one is refused.
\<close>

datatype 'a destination =
  Nil_interface | Nil_pointer | Not_a_slice | Slice_value "'a list" | Slice_pointer "'a list"

definition GetItems ::
  "env \<Rightarrow> Manager \<Rightarrow> string \<Rightarrow> Arguments \<Rightarrow> (json \<Rightarrow> 'a option) \<Rightarrow> 'a destination \<Rightarrow> world
   \<Rightarrow> 'a fetched option" where
  "GetItems e m path args elem target w =
     (case target of
        Nil_interface \<Rightarrow> Some Panics
      | Nil_pointer \<Rightarrow> Some Panics
      | Not_a_slice \<Rightarrow> Some (Returns (Some Target_must_be_slice, [], w))
      | Slice_value xs \<Rightarrow> GetItems_loop e m path elem False (ToURLValues args) 1 xs w
      | Slice_pointer xs \<Rightarrow> GetItems_loop e m path elem True (ToURLValues args) 1 xs w)"

subsection \<open>Example servers\<close>

text \<open>
  The inputs at which the properties below are run: an environment whose libraries
  succeed, a Manager as \<^verbatim>\<open>NewManager\<close> makes it, a fresh world, and servers that answer
  from a script (and refuse the connection once the script is over).
\<close>

definition example_env :: "(nat \<Rightarrow> request \<Rightarrow> nat \<times> reply) \<Rightarrow> env" where
  "example_env srv =
     \<lparr>server = srv, JoinPath = (\<lambda>base path. Some (base @ ''/'' @ path)),
      NewRequest_ok = (\<lambda>_ _ _. True), yaml_ok = (\<lambda>_. True), Getwd = Some ''/tmp'',
      FindStringSubmatch = (\<lambda>_ _. Some []), WriteFile_ok = (\<lambda>_. True), max_cap = 1000\<rparr>"

definition example_manager :: Manager where
  "example_manager =
     \<lparr>Client = 0, ClientID = [], Logger = None, BaseURL = ''https://cp.iteco.cloud'',
      Token = ''secret'', UserAgent = ''bcc-go'', ctx = Some Background\<rparr>"

definition boot :: world where
  "boot = \<lparr>clock = 0, served = 0, slept = 0, files = []\<rparr>"

definition script :: "(nat \<times> reply) list \<Rightarrow> nat \<Rightarrow> request \<Rightarrow> nat \<times> reply" where
  "script rs n req =
     (if n < length rs then rs ! n else (0, Failure (Transport ''connection refused'')))"

definition answer :: "int \<Rightarrow> string \<Rightarrow> string \<Rightarrow> json option \<Rightarrow> response" where
  "answer code tasks bytes doc =
     \<lparr>StatusCode = code, X_Esu_Tasks = tasks,
      payload = \<lparr>raw = bytes, parsed = doc\<rparr>, read_err = None\<rparr>"

text \<open>\<^verbatim>\<open>{"error_alias": ["conflict"], "non_field_errors": []}\<close>\<close>

definition conflict_without_errors :: response where
  "conflict_without_errors =
     answer 409 [] ''{\"error_alias\": [\"conflict\"], \"non_field_errors\": []}''
       (Some (JObj [(''error_alias'', JArr [JStr ''conflict'']),
                    (''non_field_errors'', JArr [])]))"

text \<open>\<^verbatim>\<open>{"error_alias": ["object_locked", "quota_exceeded"], "non_field_errors": ["busy"]}\<close>\<close>

definition locked_and_more :: response where
  "locked_and_more =
     answer 409 []
       ''{\"error_alias\": [\"object_locked\", \"quota_exceeded\"], \"non_field_errors\": [\"busy\"]}''
       (Some (JObj [(''error_alias'', JArr [JStr ''object_locked'', JStr ''quota_exceeded'']),
                    (''non_field_errors'', JArr [JStr ''busy''])]))"

text \<open>\<^verbatim>\<open>{"error_alias": ["object_locked"], "non_field_errors": ["busy"]}\<close>\<close>

definition locked :: response where
  "locked =
     answer 409 [] ''{\"error_alias\": [\"object_locked\"], \"non_field_errors\": [\"busy\"]}''
       (Some (JObj [(''error_alias'', JArr [JStr ''object_locked'']),
                    (''non_field_errors'', JArr [JStr ''busy''])]))"

text \<open>\<^verbatim>\<open>{"error_alias": ["quota_exceeded"], "non_field_errors": ["no quota"], "details": []}\<close>\<close>

definition quota_exceeded :: response where
  "quota_exceeded =
     answer 409 []
       ''{\"error_alias\": [\"quota_exceeded\"], \"non_field_errors\": [\"no quota\"], \"details\": []}''
       (Some (JObj [(''error_alias'', JArr [JStr ''quota_exceeded'']),
                    (''non_field_errors'', JArr [JStr ''no quota'']),
                    (''details'', JArr [])]))"

definition no_content :: response where
  "no_content = answer 200 [] [] None"

text \<open>\<^verbatim>\<open>{"status": "error", "name": "provision"}\<close>\<close>

definition job_failed :: response where
  "job_failed =
     answer 200 [] ''{\"status\": \"error\", \"name\": \"provision\"}''
       (Some (JObj [(''status'', JStr ''error''), (''name'', JStr ''provision'')]))"

text \<open>\<^verbatim>\<open>{"total": 3, "limit": 2, "items": [1, 2]}\<close> and a second page with broken items.\<close>

definition page_one :: response where
  "page_one =
     answer 200 [] ''{\"total\": 3, \"limit\": 2, \"items\": [1, 2]}''
       (Some (JObj [(''total'', JNum 3), (''limit'', JNum 2), (''items'', JArr [JNum 1, JNum 2])]))"

definition page_two_broken :: response where
  "page_two_broken =
     answer 200 [] ''{\"total\": 3, \"limit\": 2, \"items\": [\"x\"]}''
       (Some (JObj [(''total'', JNum 3), (''limit'', JNum 2), (''items'', JArr [JStr ''x''])]))"

definition int_elem :: "json \<Rightarrow> int option" where
  "int_elem x = (case x of JNum n \<Rightarrow> Some n | _ \<Rightarrow> None)"

text \<open>A Manager whose context is cancelled 100 ns after the start.\<close>

definition cancelled_at_100 :: Manager where
  "cancelled_at_100 = example_manager\<lparr>ctx := Some \<lparr>done_at = Some 100, err_of = Canceled\<rparr>\<rparr>"

text \<open>A success that names one task in its \<^verbatim>\<open>X-Esu-Tasks\<close> header.\<close>

definition accepted_with_task :: response where
  "accepted_with_task = answer 200 ''job1'' [] None"

text \<open>\<^verbatim>\<open>{"non_field_errors": []}\<close>\<close>

definition no_field_errors :: response where
  "no_field_errors =
     answer 409 [] ''{\"non_field_errors\": []}''
       (Some (JObj [(''non_field_errors'', JArr [])]))"

text \<open>\<^verbatim>\<open>{"total": 1, "limit": 2, "items": []}\<close>: a second page whose total has shrunk.\<close>

definition page_two_shrunk :: response where
  "page_two_shrunk =
     answer 200 [] ''{\"total\": 1, \"limit\": 2, \"items\": []}''
       (Some (JObj [(''total'', JNum 1), (''limit'', JNum 2), (''items'', JArr [])]))"

declare do_loop.simps [simp del]
declare WaitTask_loop.simps [simp del]

section \<open>Properties\<close>

subsection \<open>Argument Set: merge is right-biased\<close>

lemma assign_fold:
  "foldl (\<lambda>st (key, val). assign key val st) (Returns (Some a)) kvs =
   Returns (Some (foldl (\<lambda>a (key, val). AList.update key val a) a kvs))"
  by (induction kvs arbitrary: a) (auto simp: assign_def)

lemma map_of_fold_update:
  "map_of (foldl (\<lambda>a (key, val). AList.update key val a) a kvs) = map_of a ++ map_of (rev kvs)"
  by (induction kvs arbitrary: a)
     (auto simp: update_conv' fun_eq_iff map_add_def split: option.splits)

lemma map_of_rev_distinct: "distinct (map fst kvs) \<Longrightarrow> map_of (rev kvs) = map_of kvs"
proof (induction kvs)
  case Nil
  then show ?case by simp
next
  case (Cons x kvs)
  obtain k v where x: "x = (k, v)" by (cases x)
  have "map_of kvs k = None" using Cons.prems x by (simp add: map_of_eq_None_iff)
  moreover have "map_of (rev kvs) = map_of kvs" using Cons by simp
  ultimately show ?case using x by (auto simp: fun_eq_iff map_add_def split: option.splits)
qed

lemma merge_snoc:
  "merge (Some a) es = Returns (Some r) \<Longrightarrow>
   merge (Some a) (es @ [x]) =
     Returns (Some (foldl (\<lambda>a (key, val). AList.update key val a) r (range_of x)))"
  by (simp add: merge_def assign_fold)

text \<open>
  C7.  Merging override sets into an allocated Argument Set \<open>A\<close> returns a map in which a
  key that occurs in some override set has the value of the last override set that
  contains it, and a key that occurs in none keeps the value it has in \<open>A\<close>.  (Each
  override set is a map: its keys are distinct.)
\<close>

theorem merge_right_biased:
  assumes "list_all (\<lambda>x. distinct (map fst (range_of x))) extraArgs"
  shows "\<exists>r. merge (Some A) extraArgs = Returns (Some r) \<and>
           (\<forall>key. map_of r key =
              (case rev (filter (\<lambda>x. map_of (range_of x) key \<noteq> None) extraArgs) of
                 [] \<Rightarrow> map_of A key
               | x # _ \<Rightarrow> map_of (range_of x) key))"
  using assms
proof (induction extraArgs rule: rev_induct)
  case Nil
  then show ?case by (simp add: merge_def)
next
  case (snoc x es)
  then obtain r where r: "merge (Some A) es = Returns (Some r)"
    and l: "\<And>key. map_of r key =
              (case rev (filter (\<lambda>x. map_of (range_of x) key \<noteq> None) es) of
                 [] \<Rightarrow> map_of A key
               | x # _ \<Rightarrow> map_of (range_of x) key)"
    by auto
  have d: "distinct (map fst (range_of x))" using snoc.prems by simp
  let ?r' = "foldl (\<lambda>a (key, val). AList.update key val a) r (range_of x)"
  have "map_of ?r' key =
          (case rev (filter (\<lambda>x. map_of (range_of x) key \<noteq> None) (es @ [x])) of
             [] \<Rightarrow> map_of A key
           | x # _ \<Rightarrow> map_of (range_of x) key)" for key
  proof (cases "map_of (range_of x) key")
    case (Some v)
    then show ?thesis using d
      by (simp add: map_of_fold_update map_of_rev_distinct map_add_def)
  next
    case None
    then show ?thesis using d l [of key]
      by (simp add: map_of_fold_update map_of_rev_distinct map_add_def)
  qed
  then show ?case using merge_snoc [OF r, of x] by simp
qed

theorem merge_right_biased_witness:
  "list_all (\<lambda>x. distinct (map fst (range_of x)))
     [Some [(''vdc'', ''b''), (''name'', ''n'')], None, Some [(''vdc'', ''c'')]] \<and>
   (\<exists>r. merge (Some [(''vdc'', ''a''), (''sort'', ''id'')])
           [Some [(''vdc'', ''b''), (''name'', ''n'')], None, Some [(''vdc'', ''c'')]] = Returns (Some r) \<and>
        map_of r ''vdc'' = Some ''c'' \<and> map_of r ''name'' = Some ''n'' \<and>
        map_of r ''sort'' = Some ''id'')"
proof -
  let ?es = "[Some [(''vdc'', ''b''), (''name'', ''n'')], None, Some [(''vdc'', ''c'')]]"
  have h: "list_all (\<lambda>x. distinct (map fst (range_of x))) ?es"
    by (simp add: range_of_def)
  obtain r where r: "merge (Some [(''vdc'', ''a''), (''sort'', ''id'')]) ?es = Returns (Some r)"
    and l: "\<And>key. map_of r key =
              (case rev (filter (\<lambda>x. map_of (range_of x) key \<noteq> None) ?es) of
                 [] \<Rightarrow> map_of [(''vdc'', ''a''), (''sort'', ''id'')] key
               | x # _ \<Rightarrow> map_of (range_of x) key)"
    using merge_right_biased [OF h, of "[(''vdc'', ''a''), (''sort'', ''id'')]"] by blast
  have "map_of r ''vdc'' = Some ''c''" "map_of r ''name'' = Some ''n''"
    "map_of r ''sort'' = Some ''id''"
    by (simp_all add: l range_of_def)
  then show ?thesis using h r by blast
qed

subsection \<open>WithContext copies\<close>

text \<open>
  C9.  For a Manager at address \<open>a\<close>, \<open>WithContext\<close> returns the address of a new Manager
  whose context is \<open>c\<close> and whose other fields (client, client ID, logger, base URL, token,
  user agent) are those of the original; every Manager that existed before, the original
  included, is unchanged.
\<close>

theorem WithContext_copy:
  assumes "a < length h"
  shows "\<exists>p h'. WithContext h (Some a) c = Returns (Some p, h') \<and>
           p \<noteq> a \<and> p < length h' \<and>
           ctx (h' ! p) = c \<and>
           Client (h' ! p) = Client (h ! a) \<and>
           ClientID (h' ! p) = ClientID (h ! a) \<and>
           Logger (h' ! p) = Logger (h ! a) \<and>
           BaseURL (h' ! p) = BaseURL (h ! a) \<and>
           Token (h' ! p) = Token (h ! a) \<and>
           UserAgent (h' ! p) = UserAgent (h ! a) \<and>
           h' ! a = h ! a \<and> take (length h) h' = h"
  using assms by (simp add: WithContext_def Let_def nth_append)

theorem WithContext_copy_witness:
  "(0::nat) < length [\<lparr>Client = 1, ClientID = ''id'', Logger = None, BaseURL = ''https://cp.iteco.cloud'',
                       Token = ''t'', UserAgent = ''bcc-go'', ctx = Some Background\<rparr>] \<and>
   WithContext [\<lparr>Client = 1, ClientID = ''id'', Logger = None, BaseURL = ''https://cp.iteco.cloud'',
                 Token = ''t'', UserAgent = ''bcc-go'', ctx = Some Background\<rparr>] (Some 0)
     (Some \<lparr>done_at = Some 5, err_of = Canceled\<rparr>) =
   Returns (Some 1,
     [\<lparr>Client = 1, ClientID = ''id'', Logger = None, BaseURL = ''https://cp.iteco.cloud'',
       Token = ''t'', UserAgent = ''bcc-go'', ctx = Some Background\<rparr>,
      \<lparr>Client = 1, ClientID = ''id'', Logger = None, BaseURL = ''https://cp.iteco.cloud'',
       Token = ''t'', UserAgent = ''bcc-go'', ctx = Some \<lparr>done_at = Some 5, err_of = Canceled\<rparr>\<rparr>])"
proof -
  let ?m = "\<lparr>Client = 1, ClientID = ''id'', Logger = None, BaseURL = ''https://cp.iteco.cloud'',
             Token = ''t'', UserAgent = ''bcc-go'', ctx = Some Background\<rparr>"
  have h: "(0::nat) < length [?m]" by simp
  from WithContext_copy [OF h, of "Some \<lparr>done_at = Some 5, err_of = Canceled\<rparr>"]
  show ?thesis by (simp add: WithContext_def Let_def)
qed

lemmas example_defs = example_env_def example_manager_def boot_def script_def answer_def
  Background_def NewRequest_def

lemmas decode_defs = Unmarshal_ObjectLocked_def field_def to_lower_def slice_field_def
  zero_ObjectLocked_def alias_branch_def not_object_locked_def alias_strings_def

lemmas time_defs = sleep_def SleepWithContext_def RetryTime_def Millisecond_def
  LockTimeout_def TaskTimeout_def Second_def

lemmas call_defs = Get_def Request_def Delete_def request_URL_def ToURLValues_def range_of_def
  Header_Set_def do_def do_loop.simps do_attempt_def Client_Do_def NewApiError_def

lemmas wait_defs = WaitTask_def WaitTask_loop.simps WaitTask_attempt_def by_value_def
  zero_Task_def waitTasks_def TrimSpace_def white_space_def

lemmas items_defs = GetItems_def GetItems_loop.simps Unmarshal_tempStruct_def int_field_def
  zero_tempStruct_def Unmarshal_items_def min_int_def Sprint_def int_elem_def Defaults_def

lemma do_Failed:
  "do_loop e m (req\<lparr>Header := AList.update ''Accept-Language'' ''ru-ru'' (Header req)\<rparr>) url
     requestBody (clock w) zero_ObjectLocked w = Failed err w' \<Longrightarrow>
   do e m req url target v requestBody w = Returns (([], Some err), v, w')"
  by (simp add: do_def Let_def)

lemma Client_Do_slept: "Client_Do e req w = (r, w1) \<Longrightarrow> slept w1 = slept w"
  by (auto simp: Client_Do_def Let_def split: prod.splits option.splits if_splits)


subsection \<open>The Lock-Retry Executor\<close>

text \<open>
  C10.  When a 409 response decodes into an \<^verbatim>\<open>ObjectLocked\<close> whose alias list is empty but
  not nil, or whose alias list has an element while the list of non-field errors is
  empty or nil, \<^verbatim>\<open>do\<close> indexes element 0 of an empty slice: it panics and returns nothing.
\<close>

theorem do_panics_without_length_guard:
  assumes "Client_Do e (req\<lparr>Header := AList.update ''Accept-Language'' ''ru-ru'' (Header req),
                             Body := requestBody\<rparr>) w = (Response resp, w1)"
    and "StatusCode resp = 409"
    and "Unmarshal_ObjectLocked (payload resp) zero_ObjectLocked = (None, lo)"
    and "ErrorAlias lo = Some [] \<or>
         (\<exists>a as. ErrorAlias lo = Some (a # as) \<and>
                  (NonFieldErrors lo = None \<or> NonFieldErrors lo = Some []))"
  shows "do e m req url target v requestBody w = Panics"
  using assms
  by (auto simp: do_def Let_def do_attempt_def alias_branch_def
      do_loop.simps [of e m _ url requestBody "clock w" zero_ObjectLocked w])

theorem do_panics_without_length_guard_witness:
  "StatusCode conflict_without_errors = 409 \<and>
   Unmarshal_ObjectLocked (payload conflict_without_errors) zero_ObjectLocked =
     (None, \<lparr>Details = None, ErrorAlias = Some [JStr ''conflict''], NonFieldErrors = Some []\<rparr>) \<and>
   do (example_env (script [(0, Response conflict_without_errors)])) example_manager
      (NewRequest ''DELETE'' ''https://cp.iteco.cloud/v1/disk/1'' [] [])
      ''https://cp.iteco.cloud/v1/disk/1'' (None :: unit unmarshal option) () [] boot = Panics"
proof -
  let ?e = "example_env (script [(0, Response conflict_without_errors)])"
  let ?req = "NewRequest ''DELETE'' ''https://cp.iteco.cloud/v1/disk/1'' [] []"
  let ?lo = "\<lparr>Details = None, ErrorAlias = Some [JStr ''conflict''], NonFieldErrors = Some []\<rparr>"
  have c: "Client_Do ?e (?req\<lparr>Header := AList.update ''Accept-Language'' ''ru-ru'' (Header ?req),
                             Body := []\<rparr>) boot =
             (Response conflict_without_errors, boot\<lparr>served := 1\<rparr>)"
    by (simp add: Client_Do_def example_defs)
  have s: "StatusCode conflict_without_errors = 409"
    by (simp add: conflict_without_errors_def answer_def)
  have u: "Unmarshal_ObjectLocked (payload conflict_without_errors) zero_ObjectLocked = (None, ?lo)"
    by (simp add: conflict_without_errors_def answer_def decode_defs)
  have a: "ErrorAlias ?lo = Some [] \<or>
         (\<exists>a as. ErrorAlias ?lo = Some (a # as) \<and>
                  (NonFieldErrors ?lo = None \<or> NonFieldErrors ?lo = Some []))"
    by simp
  have "do ?e example_manager ?req ''https://cp.iteco.cloud/v1/disk/1''
          (None :: unit unmarshal option) () [] boot = Panics"
    by (rule do_panics_without_length_guard [OF c s u a])
  then show ?thesis using s u by simp
qed

text \<open>
  C6, as the code has it.  \<^verbatim>\<open>do\<close> decodes every 409 body of one call into the same
  \<^verbatim>\<open>locked_object\<close>, so that a member absent from a body keeps the value an earlier 409
  body of the call left in the struct.  Take an exchange answered with 409 whose body
  decodes, and let \<open>lo\<close> be the struct after this decoding.  If the alias list of \<open>lo\<close>
  has a first element other than \<^verbatim>\<open>object_locked\<close> and its list of non-field errors has a
  first element, the loop ends at once with the business error made of that element and
  the details, and nothing has slept.  If the alias list of \<open>lo\<close> is nil, or its first
  element is \<^verbatim>\<open>object_locked\<close> and the list of non-field errors has a first element, the
  loop sleeps 500 ms under the Manager's context and then ends with the context's error,
  ends with the lock timeout once more than 1200 s have gone by since the start, or tries
  again with \<open>lo\<close>.  An error that ends the loop is the error \<^verbatim>\<open>do\<close> returns, with no
  task IDs.
\<close>

theorem lock_retry_step:
  assumes "Client_Do e (req\<lparr>Body := requestBody\<rparr>) w = (Response resp, w1)"
    and "StatusCode resp = 409"
    and "Unmarshal_ObjectLocked (payload resp) locked_object = (None, lo)"
  shows "(ErrorAlias lo = Some (a # as) \<and> NonFieldErrors lo = Some (d # ds) \<and>
          a \<noteq> JStr ''object_locked'' \<longrightarrow>
            do_loop e m req url requestBody start locked_object w =
              Failed (Business d (Details lo)) w1 \<and>
            slept w1 = slept w) \<and>
         (ErrorAlias lo = None \<or>
          ErrorAlias lo = Some (JStr ''object_locked'' # as) \<and> NonFieldErrors lo = Some (d # ds) \<longrightarrow>
            do_loop e m req url requestBody start locked_object w =
              (case sleep m 500000000 w1 of
                 (Some err, w2) \<Rightarrow> Failed err w2
               | (None, w2) \<Rightarrow>
                   if 1200000000000 < clock w2 - start then Failed (New ''Lock timeout'') w2
                   else do_loop e m req url requestBody start lo w2)) \<and>
         (do_loop e m (rq\<lparr>Header := AList.update ''Accept-Language'' ''ru-ru'' (Header rq)\<rparr>) url
            requestBody (clock w) zero_ObjectLocked w = Failed err w' \<longrightarrow>
          do e m rq url target v requestBody w = Returns (([], Some err), v, w'))"
proof (intro conjI impI)
  assume "ErrorAlias lo = Some (a # as) \<and> NonFieldErrors lo = Some (d # ds) \<and>
          a \<noteq> JStr ''object_locked''"
  then show "do_loop e m req url requestBody start locked_object w =
              Failed (Business d (Details lo)) w1"
    using assms
    by (simp add: do_loop.simps [of e m req url requestBody start locked_object w]
        do_attempt_def alias_branch_def not_object_locked_def)
next
  show "slept w1 = slept w" using assms(1) by (rule Client_Do_slept)
next
  assume "ErrorAlias lo = None \<or>
          ErrorAlias lo = Some (JStr ''object_locked'' # as) \<and> NonFieldErrors lo = Some (d # ds)"
  then have "alias_branch lo = Locked"
    by (auto simp: alias_branch_def not_object_locked_def)
  then show "do_loop e m req url requestBody start locked_object w =
              (case sleep m 500000000 w1 of
                 (Some err, w2) \<Rightarrow> Failed err w2
               | (None, w2) \<Rightarrow>
                   if 1200000000000 < clock w2 - start then Failed (New ''Lock timeout'') w2
                   else do_loop e m req url requestBody start lo w2)"
    using assms
    by (simp add: do_loop.simps [of e m req url requestBody start locked_object w]
        do_attempt_def RetryTime_def Millisecond_def LockTimeout_def Second_def
        split: prod.splits option.splits)
next
  assume "do_loop e m (rq\<lparr>Header := AList.update ''Accept-Language'' ''ru-ru'' (Header rq)\<rparr>) url
            requestBody (clock w) zero_ObjectLocked w = Failed err w'"
  then show "do e m rq url target v requestBody w = Returns (([], Some err), v, w')"
    by (rule do_Failed)
qed


theorem lock_retry_step_witness:
  "do (example_env (script [(0, Response quota_exceeded)]))
      example_manager (NewRequest ''DELETE'' ''https://cp.iteco.cloud/v1/disk/1'' [] [])
      ''https://cp.iteco.cloud/v1/disk/1'' (None :: unit unmarshal option) () [] boot =
   Returns (([], Some (Business (JStr ''no quota'') (Some []))), (),
            \<lparr>clock = 0, served = 1, slept = 0, files = []\<rparr>) \<and>
   do_loop (example_env (script [(0, Response locked), (0, Response locked), (0, Response no_content)]))
      example_manager (NewRequest ''DELETE'' ''https://cp.iteco.cloud/v1/disk/1'' [] [])
      ''https://cp.iteco.cloud/v1/disk/1'' [] 0 zero_ObjectLocked boot =
   Answered no_content \<lparr>clock = 1000000000, served = 3, slept = 2, files = []\<rparr>"
proof -
  let ?rq = "NewRequest ''DELETE'' ''https://cp.iteco.cloud/v1/disk/1'' [] []"
  let ?req = "?rq\<lparr>Header := AList.update ''Accept-Language'' ''ru-ru'' (Header ?rq)\<rparr>"
  let ?url = "''https://cp.iteco.cloud/v1/disk/1''"
  let ?e1 = "example_env (script [(0, Response quota_exceeded)])"
  let ?lo1 = "\<lparr>Details = Some [], ErrorAlias = Some [JStr ''quota_exceeded''],
               NonFieldErrors = Some [JStr ''no quota'']\<rparr>"
  let ?w1 = "\<lparr>clock = 0, served = 1, slept = 0, files = []\<rparr>"
  have c1: "Client_Do ?e1 (?req\<lparr>Body := []\<rparr>) boot = (Response quota_exceeded, ?w1)"
    by (simp add: Client_Do_def example_defs)
  have s1: "StatusCode quota_exceeded = 409"
    by (simp add: quota_exceeded_def answer_def)
  have u1: "Unmarshal_ObjectLocked (payload quota_exceeded) zero_ObjectLocked = (None, ?lo1)"
    by (simp add: quota_exceeded_def answer_def decode_defs)
  have "do_loop ?e1 example_manager ?req ?url [] 0 zero_ObjectLocked boot =
          Failed (Business (JStr ''no quota'') (Details ?lo1)) ?w1 \<and> slept ?w1 = slept boot"
    by (rule lock_retry_step [where a = "JStr ''quota_exceeded''" and as = "[]" and ds = "[]",
          OF c1 s1 u1, THEN conjunct1, THEN mp]) simp
  then have "do_loop ?e1 example_manager ?req ?url [] (clock boot) zero_ObjectLocked boot =
          Failed (Business (JStr ''no quota'') (Some [])) ?w1"
    by (simp add: boot_def)
  then have a: "do ?e1 example_manager ?rq ?url (None :: unit unmarshal option) () [] boot =
          Returns (([], Some (Business (JStr ''no quota'') (Some []))), (), ?w1)"
    by (rule lock_retry_step [OF c1 s1 u1, THEN conjunct2, THEN conjunct2, THEN mp])
  let ?e2 = "example_env (script [(0, Response locked), (0, Response locked), (0, Response no_content)])"
  let ?lo2 = "\<lparr>Details = None, ErrorAlias = Some [JStr ''object_locked''],
               NonFieldErrors = Some [JStr ''busy'']\<rparr>"
  have c2: "Client_Do ?e2 (?rq\<lparr>Body := []\<rparr>) boot = (Response locked, ?w1)"
    by (simp add: Client_Do_def example_defs)
  have s2: "StatusCode locked = 409"
    by (simp add: locked_def answer_def)
  have u2: "Unmarshal_ObjectLocked (payload locked) zero_ObjectLocked = (None, ?lo2)"
    by (simp add: locked_def answer_def decode_defs)
  have "do_loop ?e2 example_manager ?rq ?url [] 0 zero_ObjectLocked boot =
          (case sleep example_manager 500000000 ?w1 of
             (Some err, w2) \<Rightarrow> Failed err w2
           | (None, w2) \<Rightarrow>
               if 1200000000000 < clock w2 - 0 then Failed (New ''Lock timeout'') w2
               else do_loop ?e2 example_manager ?rq ?url [] 0 ?lo2 w2)"
    by (rule lock_retry_step [where as = "[]" and d = "JStr ''busy''" and ds = "[]",
          OF c2 s2 u2, THEN conjunct2, THEN conjunct1, THEN mp]) simp
  then have b: "do_loop ?e2 example_manager ?rq ?url [] 0 zero_ObjectLocked boot =
          Answered no_content \<lparr>clock = 1000000000, served = 3, slept = 2, files = []\<rparr>"
    by (simp add: do_loop.simps [of _ _ _ _ _ _ ?lo2] do_attempt_def Client_Do_def example_defs
        decode_defs time_defs locked_def no_content_def)
  show ?thesis using a b by simp
qed

text \<open>
  C6 as stated fails: a 409 body that carries the aliases \<^verbatim>\<open>object_locked\<close> and
  \<^verbatim>\<open>quota_exceeded\<close> carries an alias other than \<^verbatim>\<open>object_locked\<close>, yet it is retried after
  a sleep (only the first alias is looked at), and here the retry succeeds.
\<close>

theorem lock_retry_first_alias_only:
  "StatusCode locked_and_more = 409 \<and>
   alias_strings (payload locked_and_more) = Some [''object_locked'', ''quota_exceeded''] \<and>
   do (example_env (script [(0, Response locked_and_more), (0, Response no_content)]))
      example_manager (NewRequest ''DELETE'' ''https://cp.iteco.cloud/v1/disk/1'' [] [])
      ''https://cp.iteco.cloud/v1/disk/1'' (None :: unit unmarshal option) () [] boot =
   Returns (([], None), (), \<lparr>clock = 500000000, served = 2, slept = 1, files = []\<rparr>)"
  by (simp add: do_def do_loop.simps do_attempt_def Client_Do_def example_defs decode_defs
      time_defs locked_and_more_def no_content_def)

text \<open>
  The struct, not the body, decides: after a first 409 with alias \<^verbatim>\<open>object_locked\<close>, a
  second 409 whose body has only an empty list of non-field errors meets the alias of the
  first in the struct, and indexing the empty list panics.
\<close>

lemma lock_retry_reuses_struct:
  "do (example_env (script [(0, Response locked), (0, Response no_field_errors)])) example_manager
      (NewRequest ''DELETE'' ''https://cp.iteco.cloud/v1/disk/1'' [] [])
      ''https://cp.iteco.cloud/v1/disk/1'' (None :: unit unmarshal option) () [] boot = Panics"
  by (simp add: call_defs example_defs decode_defs time_defs locked_def no_field_errors_def)

subsection \<open>Cancellation during a sleep\<close>

text \<open>
  Below the callers the sleeps honour the context.  Let the Manager's context be done at
  instant \<open>t\<close>, before a sleep of positive duration started at \<open>w1\<close> would end (it may be
  done already).  Then \<^verbatim>\<open>SleepWithContext\<close> and \<^verbatim>\<open>sleep\<close> return the context's error, and
  the clock stands at the later of the start and \<open>t\<close>, before the end of the interval.  The
  retry loop of \<^verbatim>\<open>do\<close>, about to sleep after a 409 that asks for a retry, ends with that
  error, which \<^verbatim>\<open>do\<close> returns; and the loop of \<^verbatim>\<open>WaitTask\<close>, about to sleep after a poll,
  returns that error.
\<close>

lemma sleep_honours_cancellation:
  assumes "ctx m = Some c" and "done_at c = Some t" and "0 < dur" and "t < clock w1 + dur"
  shows "SleepWithContext c dur w1 = (Some (Ctx (err_of c)), w1\<lparr>clock := max (clock w1) t\<rparr>) \<and>
         sleep m dur w1 = (Some (Ctx (err_of c)), w1\<lparr>clock := max (clock w1) t\<rparr>) \<and>
         max (clock w1) t < clock w1 + dur \<and>
         (dur = 500000000 \<and> Client_Do e (req\<lparr>Body := requestBody\<rparr>) w = (Response resp, w1) \<and>
          StatusCode resp = 409 \<and>
          Unmarshal_ObjectLocked (payload resp) locked_object = (None, lo) \<and>
          alias_branch lo = Locked \<longrightarrow>
            do_loop e m req url requestBody start locked_object w =
              Failed (Ctx (err_of c)) (w1\<lparr>clock := max (clock w1) t\<rparr>)) \<and>
         (do_loop e m (rq\<lparr>Header := AList.update ''Accept-Language'' ''ru-ru'' (Header rq)\<rparr>) url
            requestBody (clock w) zero_ObjectLocked w = Failed err w' \<longrightarrow>
          do e m rq url target v requestBody w = Returns (([], Some err), v, w')) \<and>
         (dur = 500000000 \<and> Get e m path (Some []) (Some by_value) task w = Returns (None, v1, w1) \<and>
          Status task \<noteq> ''error'' \<longrightarrow>
            WaitTask_loop e m path start task w =
              Returns (Some (Ctx (err_of c)), w1\<lparr>clock := max (clock w1) t\<rparr>))"
proof -
  have s: "sleep m dur w1 = (Some (Ctx (err_of c)), w1\<lparr>clock := max (clock w1) t\<rparr>)"
    using assms by (simp add: sleep_def SleepWithContext_def)
  have s': "sleep m (RetryTime * Millisecond) w1 =
              (Some (Ctx (err_of c)), w1\<lparr>clock := max (clock w1) t\<rparr>)" if "dur = 500000000"
    using s that by (simp add: RetryTime_def Millisecond_def)
  have "SleepWithContext c dur w1 = (Some (Ctx (err_of c)), w1\<lparr>clock := max (clock w1) t\<rparr>)"
    using assms by (simp add: SleepWithContext_def)
  moreover have "max (clock w1) t < clock w1 + dur"
    using assms by simp
  moreover have "do_loop e m req url requestBody start locked_object w =
              Failed (Ctx (err_of c)) (w1\<lparr>clock := max (clock w1) t\<rparr>)"
    if "dur = 500000000 \<and> Client_Do e (req\<lparr>Body := requestBody\<rparr>) w = (Response resp, w1) \<and>
          StatusCode resp = 409 \<and>
          Unmarshal_ObjectLocked (payload resp) locked_object = (None, lo) \<and>
          alias_branch lo = Locked"
    using that s'
    by (simp add: do_loop.simps [of e m req url requestBody start locked_object w] do_attempt_def)
  moreover have "do e m rq url target v requestBody w = Returns (([], Some err), v, w')"
    if "do_loop e m (rq\<lparr>Header := AList.update ''Accept-Language'' ''ru-ru'' (Header rq)\<rparr>) url
            requestBody (clock w) zero_ObjectLocked w = Failed err w'"
    using that by (rule do_Failed)
  moreover have "WaitTask_loop e m path start task w =
              Returns (Some (Ctx (err_of c)), w1\<lparr>clock := max (clock w1) t\<rparr>)"
    if "dur = 500000000 \<and> Get e m path (Some []) (Some by_value) task w = Returns (None, v1, w1) \<and>
          Status task \<noteq> ''error''"
    using that s'
    by (simp add: WaitTask_loop.simps [of e m path start task w] WaitTask_attempt_def)
  ultimately show ?thesis using s by blast
qed

lemma sleep_honours_cancellation_example:
  "sleep cancelled_at_100 500000000 \<lparr>clock = 50, served = 1, slept = 0, files = []\<rparr> =
     (Some (Ctx Canceled), \<lparr>clock = 100, served = 1, slept = 0, files = []\<rparr>) \<and>
   do (example_env (script [(50, Response locked)])) cancelled_at_100
      (NewRequest ''DELETE'' ''https://cp.iteco.cloud/v1/disk/1'' [] [])
      ''https://cp.iteco.cloud/v1/disk/1'' (None :: unit unmarshal option) () [] boot =
     Returns (([], Some (Ctx Canceled)), (), \<lparr>clock = 100, served = 1, slept = 0, files = []\<rparr>) \<and>
   WaitTask (example_env (script [(50, Response no_content)])) cancelled_at_100 ''job1'' boot =
     Returns (Some (Ctx Canceled), \<lparr>clock = 100, served = 1, slept = 0, files = []\<rparr>)"
proof -
  let ?c = "\<lparr>done_at = Some 100, err_of = Canceled\<rparr>"
  let ?w1 = "\<lparr>clock = 50, served = 1, slept = 0, files = []\<rparr>"
  let ?w2 = "\<lparr>clock = 100, served = 1, slept = 0, files = []\<rparr>"
  let ?rq = "NewRequest ''DELETE'' ''https://cp.iteco.cloud/v1/disk/1'' [] []"
  let ?req = "?rq\<lparr>Header := AList.update ''Accept-Language'' ''ru-ru'' (Header ?rq)\<rparr>"
  let ?url = "''https://cp.iteco.cloud/v1/disk/1''"
  let ?e1 = "example_env (script [(50, Response locked)])"
  let ?e2 = "example_env (script [(50, Response no_content)])"
  let ?lo = "\<lparr>Details = None, ErrorAlias = Some [JStr ''object_locked''],
              NonFieldErrors = Some [JStr ''busy'']\<rparr>"
  have h1: "ctx cancelled_at_100 = Some ?c" by (simp add: cancelled_at_100_def)
  have h2: "done_at ?c = Some 100" by simp
  have h3: "(0::nat) < 500000000" by simp
  have h4: "(100::nat) < clock ?w1 + 500000000" by simp
  note inst = sleep_honours_cancellation [OF h1 h2 h3 h4]
  have w2: "?w1\<lparr>clock := max (clock ?w1) 100\<rparr> = ?w2" by simp
  have a: "sleep cancelled_at_100 500000000 ?w1 = (Some (Ctx Canceled), ?w2)"
    using inst [THEN conjunct2, THEN conjunct1] by simp
  have c1: "Client_Do ?e1 (?req\<lparr>Body := []\<rparr>) boot = (Response locked, ?w1)"
    by (simp add: Client_Do_def example_defs)
  have s1: "StatusCode locked = 409"
    by (simp add: locked_def answer_def)
  have u1: "Unmarshal_ObjectLocked (payload locked) zero_ObjectLocked = (None, ?lo)"
    by (simp add: locked_def answer_def decode_defs)
  have l1: "alias_branch ?lo = Locked"
    by (simp add: decode_defs)
  have "do_loop ?e1 cancelled_at_100 ?req ?url [] 0 zero_ObjectLocked boot =
          Failed (Ctx (err_of ?c)) (?w1\<lparr>clock := max (clock ?w1) 100\<rparr>)"
    by (rule inst [THEN conjunct2, THEN conjunct2, THEN conjunct2, THEN conjunct1, THEN mp])
       (rule conjI refl c1 s1 u1 l1)+
  then have "do_loop ?e1 cancelled_at_100 ?req ?url [] (clock boot) zero_ObjectLocked boot =
          Failed (Ctx Canceled) ?w2"
    by (simp add: boot_def)
  then have b: "do ?e1 cancelled_at_100 ?rq ?url (None :: unit unmarshal option) () [] boot =
          Returns (([], Some (Ctx Canceled)), (), ?w2)"
    by (rule inst [THEN conjunct2, THEN conjunct2, THEN conjunct2, THEN conjunct2,
          THEN conjunct1, THEN mp])
  have g: "Get ?e2 cancelled_at_100 (request_URL ?e2 ''v1/job'' ''job1'') (Some [])
             (Some by_value) zero_Task boot = Returns (None, zero_Task, ?w1)"
    by (simp add: Get_def request_URL_def ToURLValues_def range_of_def Header_Set_def
        cancelled_at_100_def do_def do_loop.simps do_attempt_def Client_Do_def example_defs
        no_content_def)
  have "WaitTask_loop ?e2 cancelled_at_100 (request_URL ?e2 ''v1/job'' ''job1'') 0 zero_Task boot =
          Returns (Some (Ctx (err_of ?c)), ?w1\<lparr>clock := max (clock ?w1) 100\<rparr>)"
    by (rule inst [THEN conjunct2, THEN conjunct2, THEN conjunct2, THEN conjunct2,
          THEN conjunct2, THEN mp])
       ((rule conjI refl g)+, simp add: zero_Task_def)
  then have c: "WaitTask ?e2 cancelled_at_100 ''job1'' boot = Returns (Some (Ctx Canceled), ?w2)"
    by (simp add: WaitTask_def boot_def)
  show ?thesis using a b c by simp
qed

subsection \<open>Cancellation and the callers\<close>

text \<open>
  C8 on the code.  The context is cancelled 100 ns after the start, while the retry sleep
  that follows a 409 with alias \<^verbatim>\<open>object_locked\<close> (answered after 50 ns) is under way.
  \<^verbatim>\<open>do\<close> returns the cancellation at once.  The operations above it lose it: \<^verbatim>\<open>GetItems\<close>,
  whose page GET it was, returns no error, and so does \<^verbatim>\<open>WaitTask\<close>, whose poll it was.
  Likewise when the poll sleep of \<^verbatim>\<open>WaitTask\<close> is cancelled: \<^verbatim>\<open>waitTasks\<close> returns the
  cancellation, and \<^verbatim>\<open>Request\<close> and \<^verbatim>\<open>Delete\<close> return no error.
\<close>

theorem cancellation_lost_by_callers:
  "do (example_env (script [(50, Response locked)])) cancelled_at_100
      (NewRequest ''DELETE'' ''https://cp.iteco.cloud/v1/disk/1'' [] [])
      ''https://cp.iteco.cloud/v1/disk/1'' (None :: unit unmarshal option) () [] boot =
     Returns (([], Some (Ctx Canceled)), (), \<lparr>clock = 100, served = 1, slept = 0, files = []\<rparr>) \<and>
   GetItems (example_env (script [(50, Response locked)])) cancelled_at_100 ''v1/disk'' Defaults
      int_elem (Slice_pointer []) boot =
     Some (Returns (None, [], \<lparr>clock = 100, served = 1, slept = 0, files = []\<rparr>)) \<and>
   WaitTask (example_env (script [(50, Response locked)])) cancelled_at_100 ''job1'' boot =
     Returns (None, \<lparr>clock = 100, served = 1, slept = 0, files = []\<rparr>) \<and>
   waitTasks (example_env (script [(0, Response accepted_with_task), (50, Response no_content)]))
      cancelled_at_100 ''job1'' \<lparr>clock = 0, served = 1, slept = 0, files = []\<rparr> =
     Returns (Some (Ctx Canceled), \<lparr>clock = 100, served = 2, slept = 0, files = []\<rparr>) \<and>
   Request (example_env (script [(0, Response accepted_with_task), (50, Response no_content)]))
      cancelled_at_100 ''POST'' ''v1/disk/1/attach'' (Some ''{}'') (None :: unit unmarshal option) ()
      boot =
     Returns (None, (), \<lparr>clock = 100, served = 2, slept = 0, files = []\<rparr>) \<and>
   Delete (example_env (script [(0, Response accepted_with_task), (50, Response no_content)]))
      cancelled_at_100 ''v1/disk/1'' Defaults (None :: unit unmarshal option) () boot =
     Returns (None, (), \<lparr>clock = 100, served = 2, slept = 0, files = []\<rparr>)"
  by (simp add: call_defs wait_defs items_defs example_defs decode_defs time_defs
      cancelled_at_100_def locked_def accepted_with_task_def no_content_def)

subsection \<open>The Task Waiter\<close>

text \<open>
  C4 on the code.  The server answers the poll of job \<^verbatim>\<open>job1\<close> with status \<^verbatim>\<open>error\<close> and
  name \<^verbatim>\<open>provision\<close>.  \<^verbatim>\<open>Get\<close> cannot decode into the \<^verbatim>\<open>Task\<close> it receives by value, so it
  returns a decode error, on which \<^verbatim>\<open>WaitTask\<close> leaves its loop and returns no error.
\<close>

theorem WaitTask_misses_job_failure:
  "parsed (payload job_failed) =
     Some (JObj [(''status'', JStr ''error''), (''name'', JStr ''provision'')]) \<and>
   WaitTask (example_env (script [(0, Response job_failed)])) example_manager ''job1'' boot =
     Returns (None, \<lparr>clock = 0, served = 1, slept = 0, files = []\<rparr>)"
  by (simp add: call_defs wait_defs example_defs time_defs job_failed_def)

text \<open>
  The test \<^verbatim>\<open>task.Status == "error"\<close> reads a value that nothing writes: whatever the
  server answers, \<^verbatim>\<open>WaitTask\<close> returns only the context's error or the task timeout.
\<close>

lemma sleep_error: "sleep m dur w = (Some err, w') \<Longrightarrow> \<exists>x. err = Ctx x"
  by (auto simp: sleep_def SleepWithContext_def split: option.splits if_splits)

lemma WaitTask_loop_errors:
  "WaitTask_loop e m path start task w = Returns (Some err, w') \<Longrightarrow> Status task \<noteq> ''error'' \<Longrightarrow>
   (\<exists>x. err = Ctx x) \<or> err = New ''Task timeout''"
proof (induction e m path start task w rule: WaitTask_loop.induct)
  case (1 e m path start task w)
  show ?case
  proof (cases "WaitTask_attempt e m path start task w")
    case (Stop r)
    then have "r = Returns (Some err, w')"
      using "1.prems" by (simp add: WaitTask_loop.simps [of e m path start task w])
    then show ?thesis
      using Stop sleep_error "1.prems"(2)
      by (fastforce simp: WaitTask_attempt_def
          split: outcome.splits prod.splits option.splits if_splits)
  next
    case (Next w2)
    then show ?thesis
      using "1.IH" [OF Next] "1.prems"
      by (simp add: WaitTask_loop.simps [of e m path start task w])
  qed
qed

lemma WaitTask_never_reports_job_failure:
  "WaitTask e m taskId w \<noteq> Returns (Some (New (''Task in error status, step: '' @ name)), w')"
  using WaitTask_loop_errors [of e m _ "clock w" zero_Task w
      "New (''Task in error status, step: '' @ name)" w']
  by (auto simp: WaitTask_def Let_def zero_Task_def)

text \<open>
  C3 on the code.  The exchange succeeds and names the task \<^verbatim>\<open>job1\<close>; the poll of the job
  takes 601 s, so that \<^verbatim>\<open>waitTasks\<close> returns the task timeout.  \<^verbatim>\<open>Request\<close> and \<^verbatim>\<open>Delete\<close>
  return no error: they drop what \<^verbatim>\<open>waitTasks\<close> returns.  The same when the job
  reports status \<^verbatim>\<open>error\<close>.
\<close>

theorem Request_drops_task_failure:
  "waitTasks (example_env (script [(0, Response accepted_with_task), (601000000000, Response no_content)]))
     example_manager ''job1'' \<lparr>clock = 0, served = 1, slept = 0, files = []\<rparr> =
     Returns (Some (New ''Task timeout''), \<lparr>clock = 601500000000, served = 2, slept = 1, files = []\<rparr>) \<and>
   Request (example_env (script [(0, Response accepted_with_task), (601000000000, Response no_content)]))
     example_manager ''POST'' ''v1/disk/1/attach'' (Some ''{}'') (None :: unit unmarshal option) () boot =
     Returns (None, (), \<lparr>clock = 601500000000, served = 2, slept = 1, files = []\<rparr>) \<and>
   Delete (example_env (script [(0, Response accepted_with_task), (601000000000, Response no_content)]))
     example_manager ''v1/disk/1'' Defaults (None :: unit unmarshal option) () boot =
     Returns (None, (), \<lparr>clock = 601500000000, served = 2, slept = 1, files = []\<rparr>) \<and>
   Request (example_env (script [(0, Response accepted_with_task), (0, Response job_failed)]))
     example_manager ''POST'' ''v1/disk/1/attach'' (Some ''{}'') (None :: unit unmarshal option) () boot =
     Returns (None, (), \<lparr>clock = 0, served = 2, slept = 0, files = []\<rparr>)"
  by (simp add: call_defs wait_defs example_defs time_defs accepted_with_task_def no_content_def job_failed_def
      Defaults_def)

subsection \<open>The Paginator\<close>

text \<open>
  C1 on the code.  The connection is refused on the first page: \<^verbatim>\<open>do\<close> returns the
  transport failure, \<^verbatim>\<open>GetItems\<close> leaves its loop and returns no error.
\<close>

theorem GetItems_swallows_page_error:
  "GetItems (example_env (script [])) example_manager ''v1/disk'' Defaults int_elem
     (Slice_pointer []) boot =
   Some (Returns (None, [], \<lparr>clock = 0, served = 1, slept = 0, files = []\<rparr>))"
  by (simp add: items_defs call_defs example_defs decode_defs)

text \<open>
  C5 on the code.  The first page declares a total of 3 and brings 2 items, the GET of
  the second page fails: \<^verbatim>\<open>GetItems\<close> returns no error with 2 elements accumulated.
\<close>

theorem GetItems_stops_short_of_total:
  "GetItems (example_env (script [(0, Response page_one)])) example_manager ''v1/disk'' Defaults
     int_elem (Slice_pointer []) boot =
   Some (Returns (None, [1, 2], \<lparr>clock = 0, served = 2, slept = 0, files = []\<rparr>))"
  by (simp add: items_defs call_defs example_defs decode_defs page_one_def)

text \<open>
  C2 as stated fails: when the items of the second page do not decode, the decode error
  is returned, but the destination, empty before the call, holds the two elements of
  the first page.
\<close>

theorem GetItems_keeps_first_page:
  "GetItems (example_env (script [(0, Response page_one), (0, Response page_two_broken)]))
     example_manager ''v1/disk'' Defaults int_elem (Slice_pointer []) boot =
   Some (Returns (Some (Wrapf (Json UnmarshalTypeError) (JSON_items_decode_failed_on ''v1/disk'' 2)),
                  [1, 2], \<lparr>clock = 0, served = 2, slept = 0, files = []\<rparr>))"
  by (simp add: items_defs call_defs example_defs decode_defs page_one_def page_two_broken_def)

text \<open>
  Whatever \<^verbatim>\<open>GetItems\<close> returns, the destination still begins with what it held when the
  loop was at any earlier page.
\<close>

lemma GetItems_loop_keeps:
  assumes "GetItems_loop e m path elem settable params page acc w = Some y"
  shows "\<forall>r d w'. y = Returns (r, d, w') \<longrightarrow> prefix acc d"
proof (rule GetItems_loop.raw_induct
    [where P = "\<lambda>e m path elem settable params page acc w y.
                  \<forall>r d w'. y = Returns (r, d, w') \<longrightarrow> prefix acc d",
     OF _ assms], goal_cases)
  case (1 loop e m path elem settable params page acc w y)
  from "1"(2) show ?case
    by (auto simp: Let_def
        split: if_splits option.splits outcome.splits prod.splits sum.splits
        dest!: "1"(1) intro: append_prefixD)
qed

text \<open>
  A page whose GET succeeds, whose capacity \<open>min (total - limit * (page - 1)) limit\<close> is
  not negative and not beyond what can be allocated, and whose items decode without
  reaching the declared total, is appended to the destination, and the loop goes on to
  the next page.
\<close>

lemma GetItems_loop_appends:
  assumes "ctx m = Some c"
    and "NewRequest_ok e ''GET'' (request_URL e (BaseURL m) path)
           (AList.update ''page'' (Sprint page) params)"
    and "do e m
           ((Header_Set ''Authorization'' (''Bearer '' @ Token m)
              (NewRequest ''GET'' (request_URL e (BaseURL m) path)
                 (AList.update ''page'' (Sprint page) params) []))\<lparr>rctx := c\<rparr>)
           (request_URL e (BaseURL m) path) (Some Unmarshal_tempStruct) zero_tempStruct [] w =
         Returns ((ids, None), temp, w1)"
    and "0 \<le> sint (min_int (Total temp - Limit temp * (page - 1)) (Limit temp))"
    and "sint (min_int (Total temp - Limit temp * (page - 1)) (Limit temp)) \<le> max_cap e"
    and "Unmarshal_items elem (Items temp) = Inr currentItems"
    and "int (length (acc @ currentItems)) \<noteq> sint (Total temp)"
  shows "GetItems_loop e m path elem True params page acc w =
         GetItems_loop e m path elem True (AList.update ''page'' (Sprint page) params)
           (page + 1) (acc @ currentItems) w1"
  using assms
  by (subst GetItems_loop.simps) (simp add: Let_def)

text \<open>
  C2, as the code has it, for a destination passed by pointer.  Let the GET of a page
  succeed with a capacity that is not negative and can be allocated, and its items
  decode without the count reaching the declared total; let the GET of the next page
  succeed with such a capacity as well, and its items fail to decode.  Then the fetch
  ends with the decode error wrapped with the path and the number of that next page, and
  the destination holds what it held before followed by the elements of the earlier
  page: they are not discarded.
\<close>

theorem decode_failure_keeps_earlier_page:
  assumes "ctx m = Some c"
    and "NewRequest_ok e ''GET'' (request_URL e (BaseURL m) path)
           (AList.update ''page'' (Sprint page) params)"
    and "do e m
           ((Header_Set ''Authorization'' (''Bearer '' @ Token m)
              (NewRequest ''GET'' (request_URL e (BaseURL m) path)
                 (AList.update ''page'' (Sprint page) params) []))\<lparr>rctx := c\<rparr>)
           (request_URL e (BaseURL m) path) (Some Unmarshal_tempStruct) zero_tempStruct [] w =
         Returns ((ids, None), temp, w1)"
    and "0 \<le> sint (min_int (Total temp - Limit temp * (page - 1)) (Limit temp))"
    and "sint (min_int (Total temp - Limit temp * (page - 1)) (Limit temp)) \<le> max_cap e"
    and "Unmarshal_items elem (Items temp) = Inr currentItems"
    and "int (length (acc @ currentItems)) \<noteq> sint (Total temp)"
    and "NewRequest_ok e ''GET'' (request_URL e (BaseURL m) path)
           (AList.update ''page'' (Sprint (page + 1)) (AList.update ''page'' (Sprint page) params))"
    and "do e m
           ((Header_Set ''Authorization'' (''Bearer '' @ Token m)
              (NewRequest ''GET'' (request_URL e (BaseURL m) path)
                 (AList.update ''page'' (Sprint (page + 1))
                    (AList.update ''page'' (Sprint page) params)) []))\<lparr>rctx := c\<rparr>)
           (request_URL e (BaseURL m) path) (Some Unmarshal_tempStruct) zero_tempStruct [] w1 =
         Returns ((ids', None), temp', w2)"
    and "0 \<le> sint (min_int (Total temp' - Limit temp' * (page + 1 - 1)) (Limit temp'))"
    and "sint (min_int (Total temp' - Limit temp' * (page + 1 - 1)) (Limit temp')) \<le> max_cap e"
    and "Unmarshal_items elem (Items temp') = Inl err"
  shows "GetItems_loop e m path elem True params page acc w =
           Some (Returns (Some (Wrapf err (JSON_items_decode_failed_on path (page + 1))),
                          acc @ currentItems, w2))"
proof -
  have "GetItems_loop e m path elem True params page acc w =
         GetItems_loop e m path elem True (AList.update ''page'' (Sprint page) params)
           (page + 1) (acc @ currentItems) w1"
    using assms(1-7) by (rule GetItems_loop_appends)
  also have "\<dots> = Some (Returns (Some (Wrapf err (JSON_items_decode_failed_on path (page + 1))),
                          acc @ currentItems, w2))"
    using assms(1) assms(8-12)
    by (subst GetItems_loop.simps) (simp add: Let_def)
  finally show ?thesis .
qed

theorem decode_failure_keeps_earlier_page_witness:
  "GetItems_loop (example_env (script [(0, Response page_one), (0, Response page_two_broken)]))
     example_manager ''v1/disk'' int_elem True [] 1 [] boot =
   Some (Returns (Some (Wrapf (Json UnmarshalTypeError) (JSON_items_decode_failed_on ''v1/disk'' 2)),
                  [1, 2], \<lparr>clock = 0, served = 2, slept = 0, files = []\<rparr>))"
proof -
  let ?e = "example_env (script [(0, Response page_one), (0, Response page_two_broken)])"
  let ?temp = "\<lparr>Total = 3, Limit = 2, Items = Some (JArr [JNum 1, JNum 2])\<rparr>"
  let ?temp' = "\<lparr>Total = 3, Limit = 2, Items = Some (JArr [JStr ''x''])\<rparr>"
  let ?w1 = "\<lparr>clock = 0, served = 1, slept = 0, files = []\<rparr>"
  let ?w2 = "\<lparr>clock = 0, served = 2, slept = 0, files = []\<rparr>"
  have h1: "ctx example_manager = Some Background"
    by (simp add: example_manager_def)
  have h2: "NewRequest_ok ?e ''GET'' (request_URL ?e (BaseURL example_manager) ''v1/disk'')
           (AList.update ''page'' (Sprint 1) [])"
    by (simp add: example_env_def)
  have h3: "do ?e example_manager
           ((Header_Set ''Authorization'' (''Bearer '' @ Token example_manager)
              (NewRequest ''GET'' (request_URL ?e (BaseURL example_manager) ''v1/disk'')
                 (AList.update ''page'' (Sprint 1) []) []))\<lparr>rctx := Background\<rparr>)
           (request_URL ?e (BaseURL example_manager) ''v1/disk'') (Some Unmarshal_tempStruct)
           zero_tempStruct [] boot =
         Returns (([], None), ?temp, ?w1)"
    by (simp add: call_defs example_defs items_defs decode_defs page_one_def)
  have h4: "0 \<le> sint (min_int (Total ?temp - Limit ?temp * (1 - 1)) (Limit ?temp))"
    by (simp add: min_int_def)
  have h5: "sint (min_int (Total ?temp - Limit ?temp * (1 - 1)) (Limit ?temp)) \<le> max_cap ?e"
    by (simp add: min_int_def example_env_def)
  have h6: "Unmarshal_items int_elem (Items ?temp) = Inr [1, 2]"
    by (simp add: Unmarshal_items_def int_elem_def)
  have h7: "int (length ([] @ [1, 2 :: int])) \<noteq> sint (Total ?temp)"
    by simp
  have h8: "NewRequest_ok ?e ''GET'' (request_URL ?e (BaseURL example_manager) ''v1/disk'')
           (AList.update ''page'' (Sprint (1 + 1)) (AList.update ''page'' (Sprint 1) []))"
    by (simp add: example_env_def)
  have h9: "do ?e example_manager
           ((Header_Set ''Authorization'' (''Bearer '' @ Token example_manager)
              (NewRequest ''GET'' (request_URL ?e (BaseURL example_manager) ''v1/disk'')
                 (AList.update ''page'' (Sprint (1 + 1)) (AList.update ''page'' (Sprint 1) [])) []))
             \<lparr>rctx := Background\<rparr>)
           (request_URL ?e (BaseURL example_manager) ''v1/disk'') (Some Unmarshal_tempStruct)
           zero_tempStruct [] ?w1 =
         Returns (([], None), ?temp', ?w2)"
    by (simp add: call_defs example_defs items_defs decode_defs page_two_broken_def)
  have h10: "0 \<le> sint (min_int (Total ?temp' - Limit ?temp' * (1 + 1 - 1)) (Limit ?temp'))"
    by (simp add: min_int_def)
  have h11: "sint (min_int (Total ?temp' - Limit ?temp' * (1 + 1 - 1)) (Limit ?temp')) \<le> max_cap ?e"
    by (simp add: min_int_def example_env_def)
  have h12: "Unmarshal_items int_elem (Items ?temp') = Inl (Json UnmarshalTypeError)"
    by (simp add: Unmarshal_items_def int_elem_def)
  from decode_failure_keeps_earlier_page [OF h1 h2 h3 h4 h5 h6 h7 h8 h9 h10 h11 h12]
  show ?thesis by simp
qed

text \<open>
  The capacity is part of the conditions: when the total declared by the second page is
  smaller than what the first page counted from, the capacity is negative and
  \<^verbatim>\<open>reflect.MakeSlice\<close> panics before anything is decoded.
\<close>

lemma GetItems_panics_on_shrunk_total:
  "GetItems (example_env (script [(0, Response page_one), (0, Response page_two_shrunk)]))
     example_manager ''v1/disk'' Defaults int_elem (Slice_pointer []) boot = Some Panics"
  by (simp add: items_defs call_defs example_defs decode_defs page_one_def page_two_shrunk_def)

end
